theory Spec2Isabelle
  imports Complex_Main "HOL-Library.Log_Nat" "HOL-Library.Sublist" "HOL-Library.Countable"
begin

section \<open>Python values used by Coach\_app.py\<close>

subsection \<open>Floats\<close>

text \<open>
  A Python float is an IEEE 754 double. A finite double is modelled by the rational
  number it denotes; a literal such as \<^verbatim>\<open>0.6\<close> is the double nearest to 6/10 and
  \<^verbatim>\<open>a + b\<close> is the exact sum rounded to the nearest double, ties to even.
  Overflow to infinity is not modelled: every sum formed below lies between -2 and 2.
\<close>

type_synonym pyfloat = rat

definition round_half_even :: "rat \<Rightarrow> int" where
  "round_half_even q =
     (let f = \<lfloor>q\<rfloor>; r = q - of_int f
      in if r < 1 / 2 then f else if 1 / 2 < r then f + 1 else if even f then f else f + 1)"

text \<open>The binary exponent of a positive rational: the \<open>e\<close> with \<open>2^e \<le> q < 2^(e+1)\<close>.\<close>

definition ilog2 :: "rat \<Rightarrow> int" where
  "ilog2 q = (if 1 \<le> q then bitlen \<lfloor>q\<rfloor> - 1 else - bitlen (\<lceil>1 / q\<rceil> - 1))"

text \<open>
  Rounding to a double: 53 significant bits, so the spacing of doubles around \<open>q\<close> is
  \<open>2^(e - 52)\<close>, with the exponent held at -1022 in the subnormal range.
\<close>

definition to_double :: "rat \<Rightarrow> pyfloat" where
  "to_double q =
     (if q = 0 then 0
      else let e = max (ilog2 \<bar>q\<bar>) (- 1022); u = 2 powi (e - 52)
           in of_int (round_half_even (q / u)) * u)"

definition fadd :: "pyfloat \<Rightarrow> pyfloat \<Rightarrow> pyfloat" where
  "fadd a b = to_double (a + b)"

text \<open>The float literals of the source.\<close>

definition f0_6 :: pyfloat where "f0_6 = to_double (6 / 10)"
definition f0_5 :: pyfloat where "f0_5 = to_double (5 / 10)"
definition f0_2 :: pyfloat where "f0_2 = to_double (2 / 10)"
definition f0_05 :: pyfloat where "f0_05 = to_double (5 / 100)"

subsection \<open>Strings\<close>

text \<open>
  Text is a list of 8-bit characters, read as the code points below 256.
  \<^verbatim>\<open>str.lower\<close> maps A-Z and the upper-case letters of the Latin-1 block
  (U+00C0 to U+00DE without the multiplication sign U+00D7) to the letter 32 places
  further; \<^verbatim>\<open>str.strip\<close> removes the white space of that range at both ends.
\<close>

definition lower_char :: "char \<Rightarrow> char" where
  "lower_char c =
     (let n = (of_char c :: nat)
      in if (65 \<le> n \<and> n \<le> 90) \<or> (192 \<le> n \<and> n \<le> 222 \<and> n \<noteq> 215)
         then char_of (n + 32) else c)"

definition lower :: "string \<Rightarrow> string" where
  "lower s = map lower_char s"

definition is_space :: "char \<Rightarrow> bool" where
  "is_space c =
     (let n = (of_char c :: nat)
      in (9 \<le> n \<and> n \<le> 13) \<or> (28 \<le> n \<and> n \<le> 32) \<or> n = 133 \<or> n = 160)"

definition strip :: "string \<Rightarrow> string" where
  "strip s = rev (dropWhile is_space (rev (dropWhile is_space s)))"

text \<open>\<^verbatim>\<open>s.split(":", 1)\<close>: cut at the first colon, if there is one.\<close>

definition split_colon :: "string \<Rightarrow> string list" where
  "split_colon s =
     (let a = takeWhile (\<lambda>c. c \<noteq> CHR '':'') s; b = dropWhile (\<lambda>c. c \<noteq> CHR '':'') s
      in case b of [] \<Rightarrow> [a] | _ # rest \<Rightarrow> [a, rest])"

fun join :: "string \<Rightarrow> string list \<Rightarrow> string" where
  "join sep [] = []"
| "join sep [x] = x"
| "join sep (x # y # ys) = x @ sep @ join sep (y # ys)"

subsection \<open>JSON documents, exceptions, dates\<close>

text \<open>
  What \<^verbatim>\<open>json.loads\<close> returns: \<^verbatim>\<open>None\<close>, a bool, an int, a float, a str, a list
  or a dict with string keys, the dict in insertion order.
\<close>

datatype json =
    JNull
  | JBool bool
  | JInt int
  | JFloat rat
  | JStr string
  | JArr "json list"
  | JObj "(string \<times> json) list"

datatype py_error = AttributeError | TypeError | KeyError | IndexError | ValueError

text \<open>
  A \<^verbatim>\<open>datetime\<close> is a count of microseconds; \<^verbatim>\<open>utcnow()\<close> gives a naive one,
  \<^verbatim>\<open>fromisoformat\<close> a naive or an aware one, by the text it reads. Subtracting an aware
  datetime from a naive one raises TypeError.
\<close>

datatype datetime = Naive int | Aware int

fun dt_sub :: "datetime \<Rightarrow> datetime \<Rightarrow> py_error + int" where
  "dt_sub (Naive a) (Naive b) = Inr (a - b)"
| "dt_sub (Aware a) (Aware b) = Inr (a - b)"
| "dt_sub _ _ = Inl TypeError"

definition minutes :: "int \<Rightarrow> int" where
  "minutes n = n * 60000000"

text \<open>
  The library functions the program calls and does not define: the JSON codec
  (\<open>json_loads\<close> is None where \<^verbatim>\<open>json.loads\<close> raises), the ISO-8601 codec of
  \<^verbatim>\<open>datetime\<close> (\<open>fromisoformat\<close> is None where it raises ValueError), and the
  compound score of the VADER analyser.
\<close>

record lib =
  json_loads :: "string \<Rightarrow> json option"
  json_dumps :: "json \<Rightarrow> string"
  isoformat :: "int \<Rightarrow> string"
  fromisoformat :: "string \<Rightarrow> datetime option"
  polarity_compound :: "string \<Rightarrow> pyfloat"

text \<open>\<^verbatim>\<open>d.get(key, default)\<close>: only a dict has the method.\<close>

fun py_get :: "json \<Rightarrow> string \<Rightarrow> json \<Rightarrow> py_error + json" where
  "py_get (JObj kvs) k d = Inr (case map_of kvs k of None \<Rightarrow> d | Some v \<Rightarrow> v)"
| "py_get _ k d = Inl AttributeError"

text \<open>\<^verbatim>\<open>x[key]\<close> with a string key: KeyError on a dict without the key, TypeError on
  everything that is not a dict.\<close>

fun py_getitem :: "json \<Rightarrow> string \<Rightarrow> py_error + json" where
  "py_getitem (JObj kvs) k = (case map_of kvs k of None \<Rightarrow> Inl KeyError | Some v \<Rightarrow> Inr v)"
| "py_getitem _ k = Inl TypeError"

text \<open>\<^verbatim>\<open>d[key] = v\<close> on a dict: the key keeps its place, a new key goes to the end.\<close>

fun dict_set :: "string \<Rightarrow> json \<Rightarrow> (string \<times> json) list \<Rightarrow> (string \<times> json) list" where
  "dict_set k v [] = [(k, v)]"
| "dict_set k v (p # ps) = (if fst p = k then (k, v) # ps else p # dict_set k v ps)"

fun py_setitem :: "json \<Rightarrow> string \<Rightarrow> json \<Rightarrow> py_error + json" where
  "py_setitem (JObj kvs) k v = Inr (JObj (dict_set k v kvs))"
| "py_setitem _ k v = Inl TypeError"

text \<open>Iterating: a list gives its elements, a str its characters, a dict its keys;
  nothing else is iterable.\<close>

fun py_iter :: "json \<Rightarrow> py_error + json list" where
  "py_iter (JArr xs) = Inr xs"
| "py_iter (JStr s) = Inr (map (\<lambda>c. JStr [c]) s)"
| "py_iter (JObj kvs) = Inr (map (\<lambda>p. JStr (fst p)) kvs)"
| "py_iter _ = Inl TypeError"

text \<open>\<^verbatim>\<open>collections.deque\<close> with \<^verbatim>\<open>maxlen\<close>: an append to a full deque drops the
  leftmost element; the constructor appends the elements one by one.\<close>

definition deque_append :: "nat \<Rightarrow> 'a list \<Rightarrow> 'a \<Rightarrow> 'a list" where
  "deque_append maxlen d x = (let d' = d @ [x] in if maxlen < length d' then tl d' else d')"

definition deque :: "'a list \<Rightarrow> nat \<Rightarrow> 'a list" where
  "deque xs maxlen = foldl (deque_append maxlen) [] xs"

section \<open>The program\<close>

definition ALL_MOODS :: "string list" where
  "ALL_MOODS = [''stressed'', ''tired'', ''sad'', ''happy'', ''neutral'']"

definition MOOD_KEYWORDS :: "(string \<times> string list) list" where
  "MOOD_KEYWORDS =
     [(''stressed'', [''overwhelmed'', ''anxious'', ''stress'', ''pressure'', ''panic'']),
      (''tired'', [''sleepy'', ''exhausted'', ''fatigue'', ''drained'', ''tired'']),
      (''sad'', [''down'', ''blue'', ''depressed'', ''lonely'', ''sad'']),
      (''happy'', [''great'', ''excited'', ''joy'', ''grateful'', ''happy''])]"

subsection \<open>The memory file\<close>

text \<open>
  The state of \<^verbatim>\<open>coach_memory.json\<close>: absent, present but not readable as UTF-8 text
  (\<^verbatim>\<open>read_text\<close> raises), or present with a text. The working directory is taken to
  be accessible, so that \<^verbatim>\<open>exists()\<close> answers, and the file to be writable.

  \<^verbatim>\<open>write_text\<close> opens the file for writing, which empties it, and then encodes the
  text as UTF-8. Every text of the model can be encoded: its characters are code points
  below 256. A Python str can also hold a lone surrogate, which \<^verbatim>\<open>json.loads\<close> reads
  from the escape of one (U+D83D without its partner, say) and \<^verbatim>\<open>json.dumps\<close> with
  \<^verbatim>\<open>ensure_ascii=False\<close> writes as it is; on such a text the encoding raises
  UnicodeEncodeError and the file is left empty. Documents with such strings have no
  counterpart here, so \<open>save_memory\<close> describes the writing of the others only, and
  nothing below speaks about them.
\<close>

datatype file_state = Missing | Unreadable | Content string

definition empty_state :: json where
  "empty_state = JObj [(''recent_moods'', JArr [])]"

definition load_memory :: "lib \<Rightarrow> file_state \<Rightarrow> json" where
  "load_memory L f =
     (case f of
        Missing \<Rightarrow> empty_state
      | Unreadable \<Rightarrow> empty_state
      | Content s \<Rightarrow> (case json_loads L s of None \<Rightarrow> empty_state | Some mem \<Rightarrow> mem))"

definition save_memory :: "lib \<Rightarrow> json \<Rightarrow> file_state" where
  "save_memory L mem = Content (json_dumps L mem)"

definition mood_record :: "string \<Rightarrow> string \<Rightarrow> json" where
  "mood_record mood ts = JObj [(''mood'', JStr mood), (''ts'', JStr ts)]"

text \<open>\<open>now\<close> is what \<^verbatim>\<open>datetime.utcnow()\<close> returns during the call.\<close>

definition remember_mood :: "lib \<Rightarrow> int \<Rightarrow> string \<Rightarrow> file_state \<Rightarrow> py_error + file_state" where
  "remember_mood L now mood f =
     (let mem = load_memory L f in
      case py_get mem ''recent_moods'' (JArr []) of
        Inl e \<Rightarrow> Inl e
      | Inr rm \<Rightarrow>
          (case py_iter rm of
             Inl e \<Rightarrow> Inl e
           | Inr xs \<Rightarrow>
               (let moods = deque_append 10 (deque xs 10) (mood_record mood (isoformat L now)) in
                case py_setitem mem ''recent_moods'' (JArr moods) of
                  Inl e \<Rightarrow> Inl e
                | Inr mem' \<Rightarrow> Inr (save_memory L mem'))))"

text \<open>The comprehension \<^verbatim>\<open>[m for m in ... if m["mood"] == mood]\<close>; the first element
  without a \<^verbatim>\<open>"mood"\<close> entry ends it with that element's exception.\<close>

fun same_mood :: "string \<Rightarrow> json list \<Rightarrow> py_error + json list" where
  "same_mood mood [] = Inr []"
| "same_mood mood (m # ms) =
     (case py_getitem m ''mood'' of
        Inl e \<Rightarrow> Inl e
      | Inr v \<Rightarrow>
          (case same_mood mood ms of
             Inl e \<Rightarrow> Inl e
           | Inr r \<Rightarrow> Inr (if v = JStr mood then m # r else r)))"

text \<open>The body of the \<^verbatim>\<open>try\<close>: any exception in it is swallowed and 0.0 returned.\<close>

definition penalty_of :: "lib \<Rightarrow> int \<Rightarrow> json \<Rightarrow> pyfloat" where
  "penalty_of L now m =
     (case py_getitem m ''ts'' of
        Inr (JStr s) \<Rightarrow>
          (case fromisoformat L s of
             Some last_ts \<Rightarrow>
               (case dt_sub (Naive now) last_ts of
                  Inr d \<Rightarrow> if d < minutes 60 then - f0_2 else 0
                | Inl e \<Rightarrow> 0)
           | None \<Rightarrow> 0)
      | _ \<Rightarrow> 0)"

definition recent_mood_bias :: "lib \<Rightarrow> int \<Rightarrow> string \<Rightarrow> file_state \<Rightarrow> py_error + pyfloat" where
  "recent_mood_bias L now mood f =
     (let mem = load_memory L f in
      case py_get mem ''recent_moods'' (JArr []) of
        Inl e \<Rightarrow> Inl e
      | Inr rm \<Rightarrow>
          (case py_iter rm of
             Inl e \<Rightarrow> Inl e
           | Inr xs \<Rightarrow>
               (case same_mood mood xs of
                  Inl e \<Rightarrow> Inl e
                | Inr last_same \<Rightarrow>
                    Inr (if last_same = [] then 0 else penalty_of L now (last last_same)))))"

subsection \<open>Mood detection\<close>

text \<open>The dict \<^verbatim>\<open>scores\<close>, in insertion order, and the entries of \<^verbatim>\<open>reasons\<close>:
  each constructor stands for one of the formatted strings and carries what the string
  is built from.\<close>

type_synonym scores = "(string \<times> pyfloat) list"

datatype reason =
    KeywordHits string "string list"
  | Sentiment string pyfloat string
  | RecentlySeen string

text \<open>\<^verbatim>\<open>scores[mood] += c\<close>. Every key the program uses is one of \<open>ALL_MOODS\<close>, from which
  the dict is built, so the KeyError of a missing key does not arise.\<close>

fun add_score :: "string \<Rightarrow> pyfloat \<Rightarrow> scores \<Rightarrow> scores" where
  "add_score mood c [] = []"
| "add_score mood c (p # ps) =
     (if fst p = mood then (mood, fadd (snd p) c) # ps else p # add_score mood c ps)"

text \<open>The loop over \<^verbatim>\<open>MOOD_KEYWORDS.items()\<close>; \<^verbatim>\<open>kw in text_l\<close> is the substring test.\<close>

fun keyword_loop ::
  "string \<Rightarrow> (string \<times> string list) list \<Rightarrow> scores \<times> reason list \<Rightarrow> scores \<times> reason list" where
  "keyword_loop text_l [] acc = acc"
| "keyword_loop text_l ((mood, kws) # rest) (scores, reasons) =
     (let hits = filter (\<lambda>kw. sublist kw text_l) kws
      in keyword_loop text_l rest
           (if hits \<noteq> []
            then (add_score mood f0_6 scores, reasons @ [KeywordHits mood hits])
            else (scores, reasons)))"

text \<open>The \<^verbatim>\<open>if\<close>/\<^verbatim>\<open>elif\<close> chain on the compound score.\<close>

fun sentiment_rule :: "pyfloat \<Rightarrow> scores \<times> reason list \<Rightarrow> scores \<times> reason list" where
  "sentiment_rule cmp (scores, reasons) =
     (if f0_5 \<le> cmp then
        (add_score ''happy'' f0_5 scores, reasons @ [Sentiment ''positive'' cmp ''happy''])
      else if f0_05 \<le> cmp then
        (add_score ''happy'' f0_2 scores, reasons @ [Sentiment ''slightly positive'' cmp ''happy''])
      else if cmp \<le> - f0_5 then
        (add_score ''sad'' f0_5 scores, reasons @ [Sentiment ''negative'' cmp ''sad''])
      else if cmp \<le> - f0_05 then
        (add_score ''stressed'' f0_2 scores,
         reasons @ [Sentiment ''slightly negative'' cmp ''stressed''])
      else
        (add_score ''neutral'' f0_2 scores, reasons @ [Sentiment ''neutral'' cmp ''neutral'']))"

text \<open>The loop over \<open>ALL_MOODS\<close> that adds the recency adjustment; \<open>clock m\<close> is the
  time that \<^verbatim>\<open>utcnow()\<close> returns during the call for mood \<open>m\<close>.\<close>

fun recency_loop ::
  "lib \<Rightarrow> (string \<Rightarrow> int) \<Rightarrow> file_state \<Rightarrow> string list \<Rightarrow> scores \<times> reason list
     \<Rightarrow> py_error + scores \<times> reason list" where
  "recency_loop L clock f [] acc = Inr acc"
| "recency_loop L clock f (m # ms) (scores, reasons) =
     (case recent_mood_bias L (clock m) m f of
        Inl e \<Rightarrow> Inl e
      | Inr adj \<Rightarrow>
          recency_loop L clock f ms
            (add_score m adj scores, if adj < 0 then reasons @ [RecentlySeen m] else reasons))"

text \<open>\<^verbatim>\<open>max(scores, key=scores.get)\<close>: the keys are visited in insertion order and the
  candidate is replaced only by a strictly larger score; an empty dict raises ValueError.\<close>

fun max_from :: "scores \<Rightarrow> string \<times> pyfloat \<Rightarrow> string \<times> pyfloat" where
  "max_from [] best = best"
| "max_from (p # ps) best = max_from ps (if snd best < snd p then p else best)"

definition py_max :: "scores \<Rightarrow> py_error + string" where
  "py_max scores = (case scores of [] \<Rightarrow> Inl ValueError | p # ps \<Rightarrow> Inr (fst (max_from ps p)))"

definition detect_mood ::
  "lib \<Rightarrow> (string \<Rightarrow> int) \<Rightarrow> string \<Rightarrow> file_state
     \<Rightarrow> py_error + string \<times> pyfloat \<times> reason list \<times> scores" where
  "detect_mood L clock text f =
     (let text_l = lower text;
          start = (map (\<lambda>k. (k, 0)) ALL_MOODS, []);
          cmp = polarity_compound L text_l
      in case recency_loop L clock f ALL_MOODS
                (sentiment_rule cmp (keyword_loop text_l MOOD_KEYWORDS start)) of
           Inl e \<Rightarrow> Inl e
         | Inr (scores, reasons) \<Rightarrow>
             (case py_max scores of
                Inl e \<Rightarrow> Inl e
              | Inr mood \<Rightarrow> Inr (mood, cmp, reasons, scores)))"

subsection \<open>The message handler\<close>

text \<open>
  What the handler sends. \<open>Plain\<close> carries the text of a message; the other replies
  contain randomly chosen suggestions and a quote, and are represented by the values
  the program computes for them.
\<close>

datatype message =
    Plain string
  | CorrectedReply string
  | DetectedReply string pyfloat
  | Explanation "reason list" scores

definition unknown_mood_text :: "string \<Rightarrow> string" where
  "unknown_mood_text mood =
     ''Unknown mood `'' @ mood @ ''`. Use one of: '' @ join '', '' ALL_MOODS"

definition why_text :: string where
  "why_text = ''Send a sentence describing how you feel (e.g., '' @ [CHR 0x27] @
     ''I'' @ [CHR 0x27] @ ''m overwhelmed and anxious'' @ [CHR 0x27] @
     ''). I'' @ [CHR 0x27] @ ''ll explain my reasoning next time.''"

text \<open>\<open>clock\<close> gives the times read during mood detection, \<open>now\<close> the time read by
  \<open>remember_mood\<close>. The result is the memory file after the call and the messages sent.\<close>

definition handle_message ::
  "lib \<Rightarrow> (string \<Rightarrow> int) \<Rightarrow> int \<Rightarrow> string \<Rightarrow> file_state
     \<Rightarrow> py_error + file_state \<times> message list" where
  "handle_message L clock now msg f =
     (let text = strip msg in
      if lower text = ''save'' then
        Inr (save_memory L (load_memory L f), [Plain ''Memory saved to disk.''])
      else if lower text = ''reset'' then
        Inr (save_memory L empty_state, [Plain ''Cleared recent mood memory.''])
      else if prefix ''correct:'' (lower text) then
        (case split_colon text of
           [_, rest] \<Rightarrow>
             (let mood = lower (strip rest) in
              if mood \<notin> set ALL_MOODS then Inr (f, [Plain (unknown_mood_text mood)])
              else case remember_mood L now mood f of
                     Inl e \<Rightarrow> Inl e
                   | Inr f' \<Rightarrow> Inr (f', [CorrectedReply mood]))
         | _ \<Rightarrow> Inl IndexError)
      else if lower text = ''why'' then Inr (f, [Plain why_text])
      else
        (case detect_mood L clock text f of
           Inl e \<Rightarrow> Inl e
         | Inr (mood, cmp, reasons, scores) \<Rightarrow>
             (case remember_mood L now mood f of
                Inl e \<Rightarrow> Inl e
              | Inr f' \<Rightarrow>
                  Inr (f', DetectedReply mood cmp #
                           (if sublist ''why'' (lower text) then [Explanation reasons scores]
                            else [])))))"

section \<open>Vocabulary of the properties\<close>

text \<open>The memory documents the program is written for: a dict whose
  \<^verbatim>\<open>"recent_moods"\<close> entry, when there is one, is a list.\<close>

definition memory_mapping :: "json \<Rightarrow> bool" where
  "memory_mapping mem =
     (case mem of
        JObj kvs \<Rightarrow>
          (case map_of kvs ''recent_moods'' of
             None \<Rightarrow> True
           | Some (JArr rs) \<Rightarrow> True
           | Some _ \<Rightarrow> False)
      | _ \<Rightarrow> False)"

text \<open>The records of a memory document, oldest first.\<close>

definition recent_moods :: "json \<Rightarrow> json list" where
  "recent_moods mem =
     (case mem of
        JObj kvs \<Rightarrow> (case map_of kvs ''recent_moods'' of Some (JArr rs) \<Rightarrow> rs | _ \<Rightarrow> [])
      | _ \<Rightarrow> [])"

text \<open>The last \<open>n\<close> elements of a list.\<close>

definition last_n :: "nat \<Rightarrow> 'a list \<Rightarrow> 'a list" where
  "last_n n xs = drop (length xs - n) xs"

text \<open>A memory file that is missing or cannot be read or parsed.\<close>

definition unparsable :: "lib \<Rightarrow> file_state \<Rightarrow> bool" where
  "unparsable L f =
     (case f of Missing \<Rightarrow> True | Unreadable \<Rightarrow> True | Content s \<Rightarrow> json_loads L s = None)"

text \<open>The JSON codec reads back every document it writes.\<close>

definition json_round_trip :: "lib \<Rightarrow> bool" where
  "json_round_trip L = (\<forall>mem. json_loads L (json_dumps L mem) = Some mem)"

text \<open>Successive calls of \<open>remember_mood\<close>, each with the time it reads and its mood,
  and the record that such a call appends.\<close>

fun remember_moods :: "lib \<Rightarrow> (int \<times> string) list \<Rightarrow> file_state \<Rightarrow> py_error + file_state" where
  "remember_moods L [] f = Inr f"
| "remember_moods L ((now, mood) # rest) f =
     (case remember_mood L now mood f of Inl e \<Rightarrow> Inl e | Inr f' \<Rightarrow> remember_moods L rest f')"

definition new_record :: "lib \<Rightarrow> int \<times> string \<Rightarrow> json" where
  "new_record L c = mood_record (snd c) (isoformat L (fst c))"

text \<open>What a later call can see of a run of the handler: the memory document that
  \<open>load_memory\<close> finds afterwards, and the messages sent.\<close>

definition observe ::
  "lib \<Rightarrow> py_error + file_state \<times> message list \<Rightarrow> py_error + json \<times> message list" where
  "observe L r = (case r of Inl e \<Rightarrow> Inl e | Inr (g, ms) \<Rightarrow> Inr (load_memory L g, ms))"

section \<open>Sample libraries\<close>

text \<open>
  A library given by tables, for running the program on examples. It knows three memory
  texts and the timestamps of 12:00, 12:30, 13:00 and 13:30 on 1 January 2024, as
  microseconds since 1970, the one of 13:00 also with the offset of UTC; its analyser gives \<^verbatim>\<open>i feel great\<close> the compound score
  0.6249 and finds every other text neutral.
\<close>

definition noon :: int where
  "noon = 1704110400000000"

definition example_memory :: json where
  "example_memory =
     JObj [(''recent_moods'',
            JArr [mood_record ''stressed'' ''2024-01-01T12:00:00'',
                  mood_record ''happy'' ''2024-01-01T12:30:00'',
                  mood_record ''stressed'' ''2024-01-01T13:00:00''])]"

definition example_text :: string where
  \<open>example_text =
     ''{"recent_moods": [{"mood": "stressed", "ts": "2024-01-01T12:00:00"}, '' @
     ''{"mood": "happy", "ts": "2024-01-01T12:30:00"}, '' @
     ''{"mood": "stressed", "ts": "2024-01-01T13:00:00"}]}''\<close>

text \<open>A second memory text, with an entry besides \<^verbatim>\<open>"recent_moods"\<close>.\<close>

definition tagged_memory :: json where
  "tagged_memory = JObj [(''user'', JStr ''sam''), (''recent_moods'', JArr [])]"

definition tagged_text :: string where
  \<open>tagged_text = ''{"user": "sam", "recent_moods": []}''\<close>

text \<open>A third memory text: one stressed record, stamped 13:00 with the offset of UTC.\<close>

definition aware_memory :: json where
  "aware_memory =
     JObj [(''recent_moods'', JArr [mood_record ''stressed'' ''2024-01-01T13:00:00+00:00''])]"

definition aware_text :: string where
  \<open>aware_text =
     ''{"recent_moods": [{"mood": "stressed", "ts": "2024-01-01T13:00:00+00:00"}]}''\<close>

definition example_lib :: lib where
  "example_lib =
     \<lparr> json_loads = (\<lambda>s. if s = example_text then Some example_memory
                         else if s = tagged_text then Some tagged_memory
                         else if s = aware_text then Some aware_memory else None),
       json_dumps = (\<lambda>mem. if mem = example_memory then example_text
                           else if mem = tagged_memory then tagged_text else ''{}''),
       isoformat = (\<lambda>t. if t = noon then ''2024-01-01T12:00:00''
                        else if t = noon + minutes 30 then ''2024-01-01T12:30:00''
                        else if t = noon + minutes 60 then ''2024-01-01T13:00:00''
                        else if t = noon + minutes 90 then ''2024-01-01T13:30:00''
                        else ''1970-01-01T00:00:00''),
       fromisoformat = (\<lambda>s. if s = ''2024-01-01T12:00:00'' then Some (Naive noon)
                            else if s = ''2024-01-01T12:30:00'' then Some (Naive (noon + minutes 30))
                            else if s = ''2024-01-01T13:00:00'' then Some (Naive (noon + minutes 60))
                            else if s = ''2024-01-01T13:30:00'' then Some (Naive (noon + minutes 90))
                            else if s = ''2024-01-01T13:00:00+00:00''
                              then Some (Aware (noon + minutes 60))
                            else None),
       polarity_compound = (\<lambda>s. if s = ''i feel great'' then to_double (6249 / 10000) else 0) \<rparr>"

text \<open>A library whose JSON codec reads back everything it writes: a document is written
  as a row of marks, as many as its number in an enumeration of all documents.\<close>

instance json :: countable
  by countable_datatype

definition counting_lib :: lib where
  "counting_lib =
     \<lparr> json_loads = (\<lambda>s. case s of [] \<Rightarrow> None | c # cs \<Rightarrow> Some (from_nat (length cs))),
       json_dumps = (\<lambda>mem. replicate (Suc (to_nat mem)) CHR ''|''),
       isoformat = (\<lambda>t. replicate (nat t) CHR ''|''),
       fromisoformat = (\<lambda>s. Some (Naive (int (length s)))),
       polarity_compound = (\<lambda>s. 0) \<rparr>"

text \<open>Eleven calls of \<open>remember_mood\<close>, at the times 1 to 11.\<close>

definition eleven_calls :: "(int \<times> string) list" where
  "eleven_calls =
     [(1, ''happy''), (2, ''sad''), (3, ''tired''), (4, ''stressed''), (5, ''neutral''),
      (6, ''happy''), (7, ''sad''), (8, ''tired''), (9, ''stressed''), (10, ''neutral''),
      (11, ''happy'')]"

text \<open>
  The memory states of the specification: a memory document whose records are dicts
  with a \<^verbatim>\<open>"mood"\<close> entry. A record is for a mood when that entry is the mood, and the
  most recent record for a mood is the last such record.
\<close>

definition is_record :: "json \<Rightarrow> bool" where
  "is_record r = (case r of JObj kv \<Rightarrow> map_of kv ''mood'' \<noteq> None | _ \<Rightarrow> False)"

definition memory_state :: "json \<Rightarrow> bool" where
  "memory_state mem = (memory_mapping mem \<and> list_all is_record (recent_moods mem))"

definition has_mood :: "string \<Rightarrow> json \<Rightarrow> bool" where
  "has_mood mood r = (case r of JObj kv \<Rightarrow> map_of kv ''mood'' = Some (JStr mood) | _ \<Rightarrow> False)"

definition most_recent :: "string \<Rightarrow> json list \<Rightarrow> json option" where
  "most_recent mood rs = find (has_mood mood) (rev rs)"

text \<open>
  The recency penalty as the claim words it. The timestamp of a record is the UTC
  instant that its \<^verbatim>\<open>"ts"\<close> entry denotes as an ISO-8601 text, written with an offset or
  without. The penalty is -0.2 when the most recent record for the mood has a timestamp
  within 60 minutes of the current time, at a distance of less than 60 minutes, and 0.0
  otherwise, also when there is no such record.
\<close>

fun instant :: "datetime \<Rightarrow> int" where
  "instant (Naive t) = t"
| "instant (Aware t) = t"

definition utc_timestamp :: "lib \<Rightarrow> json \<Rightarrow> int option" where
  "utc_timestamp L r =
     (case r of
        JObj kv \<Rightarrow>
          (case map_of kv ''ts'' of
             Some (JStr s) \<Rightarrow> map_option instant (fromisoformat L s)
           | _ \<Rightarrow> None)
      | _ \<Rightarrow> None)"

definition spec_recency_penalty :: "lib \<Rightarrow> int \<Rightarrow> string \<Rightarrow> json list \<Rightarrow> pyfloat" where
  "spec_recency_penalty L now mood rs =
     (case most_recent mood rs of
        None \<Rightarrow> 0
      | Some r \<Rightarrow>
          (case utc_timestamp L r of
             None \<Rightarrow> 0
           | Some t \<Rightarrow> if \<bar>now - t\<bar> < minutes 60 then - f0_2 else 0))"

text \<open>
  The recency penalty as the code computes it. Only a timestamp that
  \<^verbatim>\<open>fromisoformat\<close> reads as a naive datetime counts: with an offset-aware one the
  subtraction from \<^verbatim>\<open>utcnow()\<close> raises and the exception is swallowed. The test is on
  the signed difference, \<open>now - t < 60 minutes\<close>, as in the specification's third testable
  property; a timestamp later than \<open>now\<close> passes it.
\<close>

definition naive_timestamp :: "lib \<Rightarrow> json \<Rightarrow> int option" where
  "naive_timestamp L r =
     (case r of
        JObj kv \<Rightarrow>
          (case map_of kv ''ts'' of
             Some (JStr s) \<Rightarrow> (case fromisoformat L s of Some (Naive t) \<Rightarrow> Some t | _ \<Rightarrow> None)
           | _ \<Rightarrow> None)
      | _ \<Rightarrow> None)"

definition naive_recency_penalty :: "lib \<Rightarrow> int \<Rightarrow> string \<Rightarrow> json list \<Rightarrow> pyfloat" where
  "naive_recency_penalty L now mood rs =
     (case most_recent mood rs of
        None \<Rightarrow> 0
      | Some r \<Rightarrow>
          (case naive_timestamp L r of
             None \<Rightarrow> 0
           | Some t \<Rightarrow> if now - t < minutes 60 then - f0_2 else 0))"

text \<open>The scores at the start of \<open>detect_mood\<close>.\<close>

definition start_scores :: scores where
  "start_scores = map (\<lambda>k. (k, 0)) ALL_MOODS"

text \<open>A mood has a keyword hit in a lower-cased text when it has a keyword list and one
  of its keywords occurs in the text.\<close>

definition keyword_hit :: "string \<Rightarrow> string \<Rightarrow> bool" where
  "keyword_hit text_l mood =
     (case map_of MOOD_KEYWORDS mood of
        None \<Rightarrow> False
      | Some kws \<Rightarrow> list_ex (\<lambda>kw. sublist kw text_l) kws)"

section \<open>Properties of the memory store\<close>

lemma deque_append_last:
  "0 < n \<Longrightarrow> deque_append n (drop (length xs - n) xs) x = drop (length (xs @ [x]) - n) (xs @ [x])"
  by (cases xs) (auto simp: deque_append_def Let_def Suc_diff_le drop_Suc tl_drop)

lemma deque_last:
  "0 < n \<Longrightarrow> deque xs n = drop (length xs - n) xs"
proof (induction xs rule: rev_induct)
  case Nil
  then show ?case by (simp add: deque_def)
next
  case (snoc x xs)
  then have "deque (xs @ [x]) n = deque_append n (drop (length xs - n) xs) x"
    by (simp add: deque_def)
  then show ?case using snoc.prems by (simp only: deque_append_last)
qed

lemma deque_append_deque:
  "0 < n \<Longrightarrow> deque_append n (deque xs n) x = last_n n (xs @ [x])"
  by (simp only: deque_last deque_append_last last_n_def)

lemma last_n_append_all:
  "last_n n (last_n n xs @ ys) = last_n n (xs @ ys)"
  by (cases "length xs \<le> n") (auto simp: last_n_def add.commute)

lemma length_last_n: "length (last_n n xs) = min n (length xs)"
  by (auto simp: last_n_def)

lemma map_of_dict_set:
  "map_of (dict_set k v kvs) k' = (if k' = k then Some v else map_of kvs k')"
  by (induction kvs) auto

lemma recent_moods_dict_set:
  "recent_moods (JObj (dict_set ''recent_moods'' (JArr rs) kvs)) = rs"
  by (simp add: recent_moods_def map_of_dict_set)

lemma memory_mapping_dict_set:
  "memory_mapping (JObj (dict_set ''recent_moods'' (JArr rs) kvs))"
  by (simp add: memory_mapping_def map_of_dict_set)

lemma memory_mapping_cases:
  "memory_mapping mem \<Longrightarrow> \<exists>kvs. mem = JObj kvs"
  by (cases mem) (auto simp: memory_mapping_def)

lemma load_memory_unparsable: "unparsable L f \<Longrightarrow> load_memory L f = empty_state"
  by (auto simp: unparsable_def load_memory_def split: file_state.splits)

lemma remember_mood_result:
  assumes "load_memory L f = JObj kvs" and "memory_mapping (JObj kvs)"
  shows "remember_mood L now mood f =
           Inr (save_memory L (JObj (dict_set ''recent_moods''
                  (JArr (last_n 10 (recent_moods (JObj kvs) @ [mood_record mood (isoformat L now)])))
                  kvs)))"
  using assms
  by (auto simp: remember_mood_def memory_mapping_def recent_moods_def deque_append_deque
        split: option.splits json.splits)

lemma remember_moods_result:
  assumes "json_round_trip L"
  shows "memory_mapping (load_memory L f) \<Longrightarrow>
         \<exists>f'. remember_moods L calls f = Inr f' \<and> memory_mapping (load_memory L f') \<and>
           recent_moods (load_memory L f') =
             (if calls = [] then recent_moods (load_memory L f)
              else last_n 10 (recent_moods (load_memory L f) @ map (new_record L) calls))"
proof (induction calls arbitrary: f)
  case Nil
  then show ?case by simp
next
  case (Cons c calls)
  obtain now mood where c: "c = (now, mood)" by (cases c)
  from Cons.prems obtain kvs where kvs: "load_memory L f = JObj kvs"
    using memory_mapping_cases by blast
  define mem' where "mem' = JObj (dict_set ''recent_moods''
     (JArr (last_n 10 (recent_moods (JObj kvs) @ [mood_record mood (isoformat L now)]))) kvs)"
  have step: "remember_mood L now mood f = Inr (save_memory L mem')"
    using remember_mood_result[OF kvs] Cons.prems kvs by (simp add: mem'_def)
  have load: "load_memory L (save_memory L mem') = mem'"
    using assms by (simp add: json_round_trip_def load_memory_def save_memory_def)
  have mm: "memory_mapping (load_memory L (save_memory L mem'))"
    unfolding load by (simp add: mem'_def memory_mapping_dict_set)
  have rm: "recent_moods mem' = last_n 10 (recent_moods (load_memory L f) @ [new_record L c])"
    by (simp add: mem'_def recent_moods_dict_set kvs c new_record_def)
  from Cons.IH[OF mm] obtain f' where
    f': "remember_moods L calls (save_memory L mem') = Inr f'"
        "memory_mapping (load_memory L f')"
        "recent_moods (load_memory L f') =
           (if calls = [] then recent_moods (load_memory L (save_memory L mem'))
            else last_n 10 (recent_moods (load_memory L (save_memory L mem')) @ map (new_record L) calls))"
    by blast
  have "remember_moods L (c # calls) f = Inr f'"
    by (simp add: c step f'(1))
  moreover have "recent_moods (load_memory L f') =
      last_n 10 (recent_moods (load_memory L f) @ map (new_record L) (c # calls))"
    using f'(3) by (simp add: load rm last_n_append_all)
  ultimately show ?case using f'(2) by auto
qed

text \<open>
  Claim C8. Saving a memory document and loading it right after gives the document
  back, and so the same list of mood/timestamp records in the same order. What the
  program adds to the JSON library is that \<open>load_memory\<close> reads the text that
  \<open>save_memory\<close> wrote and does not replace it by the empty state; that the library
  reads back the text it wrote for this document is the hypothesis.
\<close>

theorem save_then_load:
  assumes "json_loads L (json_dumps L mem) = Some mem"
  shows "load_memory L (save_memory L mem) = mem \<and>
         recent_moods (load_memory L (save_memory L mem)) = recent_moods mem"
  using assms by (simp add: load_memory_def save_memory_def)

theorem save_then_load_witness:
  "json_loads example_lib (json_dumps example_lib example_memory) = Some example_memory \<and>
   load_memory example_lib (save_memory example_lib example_memory) = example_memory \<and>
   recent_moods (load_memory example_lib (save_memory example_lib example_memory)) =
     recent_moods example_memory"
proof -
  have h: "json_loads example_lib (json_dumps example_lib example_memory) = Some example_memory"
    by (simp add: example_lib_def)
  from save_then_load[OF h] show ?thesis using h by simp
qed

text \<open>
  Claim C4. On a memory document \<open>remember_mood\<close> succeeds and writes a document whose
  records are the last 10 of the old records followed by the new one: at most 10
  records, the new one last, with the time read by the call, and the oldest dropped
  first. Eleven calls in succession from the empty state leave the records of the last
  ten calls, in order: the first call's record is gone. For the successive calls each
  one must find what the one before wrote, so the JSON codec is assumed to read back
  what it writes.
\<close>

theorem remember_mood_keeps_ten:
  "(memory_mapping (load_memory L f) \<longrightarrow>
      (\<exists>mem'. remember_mood L now mood f = Inr (save_memory L mem') \<and>
         recent_moods mem' =
           last_n 10 (recent_moods (load_memory L f) @ [mood_record mood (isoformat L now)]) \<and>
         length (recent_moods mem') \<le> 10 \<and>
         last (recent_moods mem') = mood_record mood (isoformat L now))) \<and>
   (json_round_trip L \<and> load_memory L f = empty_state \<and> length calls = 11 \<longrightarrow>
      (\<exists>f'. remember_moods L calls f = Inr f' \<and>
         recent_moods (load_memory L f') = map (new_record L) (tl calls) \<and>
         length (recent_moods (load_memory L f')) = 10))"
proof (intro conjI impI)
  assume mm: "memory_mapping (load_memory L f)"
  then obtain kvs where kvs: "load_memory L f = JObj kvs"
    using memory_mapping_cases by blast
  let ?rs = "last_n 10 (recent_moods (JObj kvs) @ [mood_record mood (isoformat L now)])"
  have "remember_mood L now mood f =
          Inr (save_memory L (JObj (dict_set ''recent_moods'' (JArr ?rs) kvs)))"
    using remember_mood_result[OF kvs] mm kvs by simp
  moreover have "length ?rs \<le> 10"
    by (simp add: length_last_n)
  moreover have "last ?rs = mood_record mood (isoformat L now)"
    by (simp add: last_n_def)
  ultimately show "\<exists>mem'. remember_mood L now mood f = Inr (save_memory L mem') \<and>
         recent_moods mem' =
           last_n 10 (recent_moods (load_memory L f) @ [mood_record mood (isoformat L now)]) \<and>
         length (recent_moods mem') \<le> 10 \<and>
         last (recent_moods mem') = mood_record mood (isoformat L now)"
    using kvs by (auto simp: recent_moods_dict_set)
next
  assume a: "json_round_trip L \<and> load_memory L f = empty_state \<and> length calls = 11"
  then have mm: "memory_mapping (load_memory L f)"
    by (simp add: empty_state_def memory_mapping_def)
  from a have ne: "calls \<noteq> []" by auto
  from a obtain c cs where ccs: "calls = c # cs" "length cs = 10"
    by (cases calls) auto
  from remember_moods_result[of L f calls] a mm obtain f' where
    f': "remember_moods L calls f = Inr f'"
        "recent_moods (load_memory L f') =
           last_n 10 (recent_moods (load_memory L f) @ map (new_record L) calls)"
    using ne by auto
  have "recent_moods (load_memory L f) = []"
    using a by (simp add: empty_state_def recent_moods_def)
  then have "recent_moods (load_memory L f') = map (new_record L) (tl calls)"
    using f'(2) ccs by (simp add: last_n_def)
  then show "\<exists>f'. remember_moods L calls f = Inr f' \<and>
         recent_moods (load_memory L f') = map (new_record L) (tl calls) \<and>
         length (recent_moods (load_memory L f')) = 10"
    using f'(1) ccs by auto
qed

theorem remember_mood_keeps_ten_witness:
  "memory_mapping (load_memory counting_lib Missing) \<and>
   (\<exists>mem'. remember_mood counting_lib 12 ''sad'' Missing = Inr (save_memory counting_lib mem') \<and>
      recent_moods mem' =
        last_n 10 (recent_moods (load_memory counting_lib Missing) @
                   [mood_record ''sad'' (isoformat counting_lib 12)]) \<and>
      length (recent_moods mem') \<le> 10 \<and>
      last (recent_moods mem') = mood_record ''sad'' (isoformat counting_lib 12)) \<and>
   json_round_trip counting_lib \<and>
   load_memory counting_lib Missing = empty_state \<and>
   length eleven_calls = 11 \<and>
   (\<exists>f'. remember_moods counting_lib eleven_calls Missing = Inr f' \<and>
      recent_moods (load_memory counting_lib f') = map (new_record counting_lib) (tl eleven_calls) \<and>
      length (recent_moods (load_memory counting_lib f')) = 10)"
proof -
  have h1: "load_memory counting_lib Missing = empty_state"
    by (simp add: load_memory_def)
  have h2: "memory_mapping (load_memory counting_lib Missing)"
    by (simp add: h1 empty_state_def memory_mapping_def)
  have h3: "json_round_trip counting_lib"
    by (simp add: json_round_trip_def counting_lib_def)
  have h4: "length eleven_calls = 11"
    by (simp add: eleven_calls_def)
  from remember_mood_keeps_ten[of counting_lib Missing 12 "''sad''" eleven_calls]
  show ?thesis using h1 h2 h3 h4 by blast
qed

text \<open>What the program does with the memory file depends on the file only through
  \<open>load_memory\<close>.\<close>

lemma recent_mood_bias_load:
  "load_memory L f = load_memory L f' \<Longrightarrow>
   recent_mood_bias L now mood f = recent_mood_bias L now mood f'"
  by (simp add: recent_mood_bias_def)

lemma remember_mood_load:
  "load_memory L f = load_memory L f' \<Longrightarrow>
   remember_mood L now mood f = remember_mood L now mood f'"
  by (simp add: remember_mood_def)

lemma recency_loop_load:
  "load_memory L f = load_memory L f' \<Longrightarrow>
   recency_loop L clock f ms acc = recency_loop L clock f' ms acc"
proof (induction ms arbitrary: acc)
  case Nil
  then show ?case by simp
next
  case (Cons m ms)
  obtain scores reasons where acc: "acc = (scores, reasons)" by (cases acc)
  show ?case
    using Cons by (simp add: acc recent_mood_bias_load[of L f f'] split: sum.splits)
qed

lemma detect_mood_load:
  "load_memory L f = load_memory L f' \<Longrightarrow>
   detect_mood L clock text f = detect_mood L clock text f'"
  by (simp add: detect_mood_def recency_loop_load[of L f f'])

lemma handle_message_load:
  assumes "load_memory L f = load_memory L f'"
  shows "observe L (handle_message L clock now msg f) =
         observe L (handle_message L clock now msg f')"
  using assms
  by (auto simp: handle_message_def observe_def Let_def detect_mood_load[of L f f']
        remember_mood_load[of L f f'] split: sum.splits list.splits prod.splits)

lemma recent_mood_bias_empty:
  "load_memory L f = empty_state \<Longrightarrow> recent_mood_bias L now mood f = Inr 0"
  by (simp add: recent_mood_bias_def empty_state_def)

lemma remember_mood_empty:
  "load_memory L f = empty_state \<Longrightarrow>
   remember_mood L now mood f =
     Inr (save_memory L (JObj [(''recent_moods'', JArr [mood_record mood (isoformat L now)])]))"
  by (simp add: remember_mood_def empty_state_def deque_def deque_append_def)

text \<open>
  Claim C6. \<open>load_memory\<close> has no exceptional result: every exception of reading and
  parsing is caught. On a file that is missing, unreadable or not parsable it returns
  the empty state, and every operation that loads memory does on such a file \<open>f\<close> what it
  does on a file \<open>f'\<close> that holds the empty state: no penalty, a first record remembered,
  the same detection, and the same messages and memory after any message.
\<close>

theorem unparsable_is_empty:
  assumes "unparsable L f" and "load_memory L f' = empty_state"
  shows "load_memory L f = empty_state \<and>
         recent_mood_bias L now mood f = Inr 0 \<and>
         remember_mood L now mood f =
           Inr (save_memory L (JObj [(''recent_moods'', JArr [mood_record mood (isoformat L now)])])) \<and>
         recent_mood_bias L now mood f = recent_mood_bias L now mood f' \<and>
         remember_mood L now mood f = remember_mood L now mood f' \<and>
         detect_mood L clock text f = detect_mood L clock text f' \<and>
         observe L (handle_message L clock now msg f) =
           observe L (handle_message L clock now msg f')"
proof -
  have e: "load_memory L f = empty_state"
    using assms(1) by (rule load_memory_unparsable)
  then have same: "load_memory L f = load_memory L f'"
    using assms(2) by simp
  show ?thesis
    using e recent_mood_bias_empty[OF e] remember_mood_empty[OF e]
      recent_mood_bias_load[OF same] remember_mood_load[OF same] detect_mood_load[OF same]
      handle_message_load[OF same]
    by simp
qed

theorem unparsable_is_empty_witness:
  "unparsable example_lib (Content ''{oops'') \<and>
   load_memory example_lib Missing = empty_state \<and>
   load_memory example_lib (Content ''{oops'') = empty_state \<and>
   recent_mood_bias example_lib noon ''sad'' (Content ''{oops'') = Inr 0 \<and>
   remember_mood example_lib noon ''sad'' (Content ''{oops'') =
     remember_mood example_lib noon ''sad'' Missing \<and>
   detect_mood example_lib (\<lambda>m. noon) ''hello'' (Content ''{oops'') =
     detect_mood example_lib (\<lambda>m. noon) ''hello'' Missing \<and>
   observe example_lib
       (handle_message example_lib (\<lambda>m. noon) noon ''save'' (Content ''{oops'')) =
     observe example_lib
       (handle_message example_lib (\<lambda>m. noon) noon ''save'' Missing)"
proof -
  have h1: "unparsable example_lib (Content ''{oops'')"
    by (simp add: unparsable_def example_lib_def example_text_def tagged_text_def
          aware_text_def)
  have h2: "load_memory example_lib Missing = empty_state"
    by (simp add: load_memory_def)
  from unparsable_is_empty[OF h1 h2, of noon "''sad''" "\<lambda>m. noon"
      "''hello''" "''save''"]
  show ?thesis using h1 h2 by blast
qed

lemma filter_dict_set:
  "filter (\<lambda>p. fst p \<noteq> k) (dict_set k v kvs) = filter (\<lambda>p. fst p \<noteq> k) kvs"
  by (induction kvs) auto

text \<open>
  What \<open>remember_mood\<close> saves when it succeeds: the loaded memory is a dict, and the
  saved document is that dict with a new \<^verbatim>\<open>"recent_moods"\<close> entry, the entries under
  every other key as they were loaded and in the same order.
\<close>

lemma remember_mood_saves:
  assumes "remember_mood L now mood f = Inr f'"
  shows "\<exists>kvs rs. load_memory L f = JObj kvs \<and>
           f' = save_memory L (JObj (dict_set ''recent_moods'' (JArr rs) kvs)) \<and>
           filter (\<lambda>p. fst p \<noteq> ''recent_moods'') (dict_set ''recent_moods'' (JArr rs) kvs) =
             filter (\<lambda>p. fst p \<noteq> ''recent_moods'') kvs"
proof (cases "load_memory L f")
  case (JObj kvs)
  with assms show ?thesis
    by (auto simp: remember_mood_def Let_def filter_dict_set split: sum.splits)
qed (use assms in \<open>simp_all add: remember_mood_def\<close>)

section \<open>Properties of the message handler\<close>

lemma of_char_lower_char:
  "(of_char (lower_char c) :: nat) =
     (if (65 \<le> (of_char c :: nat) \<and> (of_char c :: nat) \<le> 90) \<or>
         (192 \<le> (of_char c :: nat) \<and> (of_char c :: nat) \<le> 222 \<and> (of_char c :: nat) \<noteq> 215)
      then of_char c + 32 else of_char c)"
  by (auto simp: lower_char_def Let_def)

lemma lower_char_colon: "lower_char c = CHR '':'' \<longleftrightarrow> c = CHR '':''"
proof
  assume "lower_char c = CHR '':''"
  then have "(of_char (lower_char c) :: nat) = 58" by simp
  then have "(of_char c :: nat) = 58"
    by (auto simp: of_char_lower_char split: if_splits)
  then have "(of_char c :: nat) = of_char (CHR '':'')" by simp
  then show "c = CHR '':''" by (simp only: of_char_eq_iff)
next
  assume "c = CHR '':''"
  then show "lower_char c = CHR '':''" by (simp add: lower_char_def)
qed

lemma lower_char_letter_not_colon:
  "lower_char c = d \<Longrightarrow> d \<noteq> CHR '':'' \<Longrightarrow> c \<noteq> CHR '':''"
  using lower_char_colon by auto

lemma split_colon_correct:
  assumes "prefix ''correct:'' (lower t)"
  shows "split_colon t = [take 7 t, drop 8 t]"
proof -
  from assms obtain zs where zs: "lower t = ''correct:'' @ zs"
    by (auto simp: prefix_def)
  then have "length (lower t) = Suc (Suc (Suc (Suc (Suc (Suc (Suc (Suc (length zs))))))))"
    by simp
  then have "length t = Suc (Suc (Suc (Suc (Suc (Suc (Suc (Suc (length zs))))))))"
    by (simp add: lower_def)
  then obtain c1 c2 c3 c4 c5 c6 c7 c8 r where t: "t = c1 # c2 # c3 # c4 # c5 # c6 # c7 # c8 # r"
    by (auto simp: length_Suc_conv)
  from zs have cs: "lower_char c1 = CHR ''c''" "lower_char c2 = CHR ''o''"
      "lower_char c3 = CHR ''r''" "lower_char c4 = CHR ''r''" "lower_char c5 = CHR ''e''"
      "lower_char c6 = CHR ''c''" "lower_char c7 = CHR ''t''" "lower_char c8 = CHR '':''"
    by (simp_all add: t lower_def)
  have ne: "c1 \<noteq> CHR '':''" "c2 \<noteq> CHR '':''" "c3 \<noteq> CHR '':''" "c4 \<noteq> CHR '':''"
      "c5 \<noteq> CHR '':''" "c6 \<noteq> CHR '':''" "c7 \<noteq> CHR '':''"
    using cs by (auto dest: lower_char_letter_not_colon)
  have c8: "c8 = CHR '':''" using cs(8) by (simp add: lower_char_colon)
  show ?thesis
    by (simp add: t split_colon_def ne c8)
qed

lemma correct_not_other:
  "prefix ''correct:'' s \<Longrightarrow> s \<noteq> ''save'' \<and> s \<noteq> ''reset''"
  by (auto simp: prefix_def)

lemma join_ALL_MOODS: "join '', '' ALL_MOODS = ''stressed, tired, sad, happy, neutral''"
  by (simp add: ALL_MOODS_def)

lemma handle_message_correct:
  assumes "prefix ''correct:'' (lower (strip msg))"
  shows "handle_message L clock now msg f =
           (let mood = lower (strip (drop 8 (strip msg))) in
            if mood \<notin> set ALL_MOODS then Inr (f, [Plain (unknown_mood_text mood)])
            else case remember_mood L now mood f of
                   Inl e \<Rightarrow> Inl e
                 | Inr f' \<Rightarrow> Inr (f', [CorrectedReply mood]))"
  using assms correct_not_other[OF assms] split_colon_correct[OF assms]
  by (simp add: handle_message_def Let_def)

text \<open>
  Claim C7. A message that, stripped and lower-cased, starts with \<^verbatim>\<open>correct:\<close> names
  the mood that follows the colon, stripped and lower-cased. When that is none of the
  five moods, the handler sends the rejection that lists the five moods and the memory
  file stays as it is. When it is one of them, the mood is appended to the memory: on a
  memory document the file is overwritten with the text of the document in which the
  new record follows the old ones (the last 10 kept), and with a JSON codec that reads
  back what it writes that is the document \<open>load_memory\<close> finds afterwards.
\<close>

theorem correct_command:
  assumes "prefix ''correct:'' (lower (strip msg))"
    and "mood = lower (strip (drop 8 (strip msg)))"
  shows "(mood \<notin> set ALL_MOODS \<longrightarrow>
            handle_message L clock now msg f =
              Inr (f, [Plain (''Unknown mood `'' @ mood @
                         ''`. Use one of: stressed, tired, sad, happy, neutral'')])) \<and>
         (mood \<in> set ALL_MOODS \<and> load_memory L f = JObj kvs \<and> memory_mapping (JObj kvs) \<longrightarrow>
            handle_message L clock now msg f =
              Inr (Content (json_dumps L (JObj (dict_set ''recent_moods''
                     (JArr (last_n 10 (recent_moods (JObj kvs) @
                                       [mood_record mood (isoformat L now)])))
                     kvs))),
                   [CorrectedReply mood])) \<and>
         (mood \<in> set ALL_MOODS \<and> memory_mapping (load_memory L f) \<and> json_round_trip L \<longrightarrow>
            (\<exists>f'. handle_message L clock now msg f = Inr (f', [CorrectedReply mood]) \<and>
               memory_mapping (load_memory L f') \<and>
               recent_moods (load_memory L f') =
                 last_n 10 (recent_moods (load_memory L f) @
                            [mood_record mood (isoformat L now)])))"
proof -
  have reject: "handle_message L clock now msg f =
              Inr (f, [Plain (''Unknown mood `'' @ mood @
                         ''`. Use one of: stressed, tired, sad, happy, neutral'')])"
    if "mood \<notin> set ALL_MOODS"
    using that handle_message_correct[OF assms(1), of L clock now f] assms(2)
    by (simp add: Let_def unknown_mood_text_def join_ALL_MOODS)
  have stored: "handle_message L clock now msg f =
              Inr (Content (json_dumps L (JObj (dict_set ''recent_moods''
                     (JArr (last_n 10 (recent_moods (JObj ks) @
                                       [mood_record mood (isoformat L now)])))
                     ks))),
                   [CorrectedReply mood])"
    if m: "mood \<in> set ALL_MOODS" and ks: "load_memory L f = JObj ks"
      and mm: "memory_mapping (JObj ks)" for ks
  proof -
    have "remember_mood L now mood f =
          Inr (save_memory L (JObj (dict_set ''recent_moods''
                 (JArr (last_n 10 (recent_moods (JObj ks) @
                                   [mood_record mood (isoformat L now)])))
                 ks)))"
      using ks mm by (rule remember_mood_result)
    then show ?thesis
      using handle_message_correct[OF assms(1), of L clock now f] assms(2) m
      by (simp add: Let_def save_memory_def)
  qed
  have loaded: "\<exists>f'. handle_message L clock now msg f = Inr (f', [CorrectedReply mood]) \<and>
               memory_mapping (load_memory L f') \<and>
               recent_moods (load_memory L f') =
                 last_n 10 (recent_moods (load_memory L f) @
                            [mood_record mood (isoformat L now)])"
    if m: "mood \<in> set ALL_MOODS" and mm: "memory_mapping (load_memory L f)"
      and rt: "json_round_trip L"
  proof -
    from mm obtain ks where ks: "load_memory L f = JObj ks"
      using memory_mapping_cases by blast
    define mem' where "mem' = JObj (dict_set ''recent_moods''
                     (JArr (last_n 10 (recent_moods (JObj ks) @
                                       [mood_record mood (isoformat L now)])))
                     ks)"
    have h: "handle_message L clock now msg f =
        Inr (Content (json_dumps L mem'), [CorrectedReply mood])"
      using stored[OF m ks] mm ks by (simp add: mem'_def)
    have l: "load_memory L (Content (json_dumps L mem')) = mem'"
      using rt by (simp add: json_round_trip_def load_memory_def)
    have "memory_mapping mem'"
      by (simp add: mem'_def memory_mapping_dict_set)
    moreover have "recent_moods mem' =
        last_n 10 (recent_moods (load_memory L f) @ [mood_record mood (isoformat L now)])"
      by (simp add: mem'_def recent_moods_dict_set ks)
    ultimately show ?thesis using h l by simp
  qed
  from reject stored[of kvs] loaded show ?thesis by blast
qed

theorem correct_command_witness:
  "prefix ''correct:'' (lower (strip ''correct: excited'')) \<and>
   ''excited'' = lower (strip (drop 8 (strip ''correct: excited''))) \<and>
   ''excited'' \<notin> set ALL_MOODS \<and>
   handle_message example_lib (\<lambda>m. noon) noon ''correct: excited''
       (Content example_text) =
     Inr (Content example_text,
          [Plain ''Unknown mood `excited`. Use one of: stressed, tired, sad, happy, neutral'']) \<and>
   prefix ''correct:'' (lower (strip '' Correct:  Happy ''))  \<and>
   ''happy'' = lower (strip (drop 8 (strip '' Correct:  Happy ''))) \<and>
   ''happy'' \<in> set ALL_MOODS \<and>
   load_memory counting_lib (save_memory counting_lib example_memory) =
     JObj [(''recent_moods'',
            JArr [mood_record ''stressed'' ''2024-01-01T12:00:00'',
                  mood_record ''happy'' ''2024-01-01T12:30:00'',
                  mood_record ''stressed'' ''2024-01-01T13:00:00''])] \<and>
   memory_mapping (load_memory counting_lib (save_memory counting_lib example_memory)) \<and>
   json_round_trip counting_lib \<and>
   handle_message counting_lib (\<lambda>m. 7) 7 '' Correct:  Happy ''
       (save_memory counting_lib example_memory) =
     Inr (Content (json_dumps counting_lib
            (JObj [(''recent_moods'',
                    JArr [mood_record ''stressed'' ''2024-01-01T12:00:00'',
                          mood_record ''happy'' ''2024-01-01T12:30:00'',
                          mood_record ''stressed'' ''2024-01-01T13:00:00'',
                          mood_record ''happy'' (isoformat counting_lib 7)])])),
          [CorrectedReply ''happy'']) \<and>
   (\<exists>f'. handle_message counting_lib (\<lambda>m. 7) 7 '' Correct:  Happy ''
            (save_memory counting_lib example_memory) = Inr (f', [CorrectedReply ''happy'']) \<and>
      memory_mapping (load_memory counting_lib f') \<and>
      recent_moods (load_memory counting_lib f') =
        [mood_record ''stressed'' ''2024-01-01T12:00:00'',
         mood_record ''happy'' ''2024-01-01T12:30:00'',
         mood_record ''stressed'' ''2024-01-01T13:00:00'',
         mood_record ''happy'' (isoformat counting_lib 7)])"
proof -
  have a1: "prefix ''correct:'' (lower (strip ''correct: excited''))"
    by code_simp
  have a2: "lower (strip (drop 8 (strip ''correct: excited''))) = ''excited''"
    by code_simp
  have a3: "''excited'' \<notin> set ALL_MOODS"
    by (simp add: ALL_MOODS_def)
  have b1: "prefix ''correct:'' (lower (strip '' Correct:  Happy ''))"
    by code_simp
  have b2: "lower (strip (drop 8 (strip '' Correct:  Happy ''))) = ''happy''"
    by code_simp
  have b3: "''happy'' \<in> set ALL_MOODS"
    by (simp add: ALL_MOODS_def)
  have rt: "json_round_trip counting_lib"
    by (simp add: json_round_trip_def counting_lib_def)
  have ld: "load_memory counting_lib (save_memory counting_lib example_memory) =
     JObj [(''recent_moods'',
            JArr [mood_record ''stressed'' ''2024-01-01T12:00:00'',
                  mood_record ''happy'' ''2024-01-01T12:30:00'',
                  mood_record ''stressed'' ''2024-01-01T13:00:00''])]"
    using rt by (simp add: json_round_trip_def load_memory_def save_memory_def example_memory_def)
  have mm: "memory_mapping (JObj [(''recent_moods'',
            JArr [mood_record ''stressed'' ''2024-01-01T12:00:00'',
                  mood_record ''happy'' ''2024-01-01T12:30:00'',
                  mood_record ''stressed'' ''2024-01-01T13:00:00''])])"
    by (simp add: memory_mapping_def)
  have rm: "recent_moods (JObj [(''recent_moods'',
            JArr [mood_record ''stressed'' ''2024-01-01T12:00:00'',
                  mood_record ''happy'' ''2024-01-01T12:30:00'',
                  mood_record ''stressed'' ''2024-01-01T13:00:00''])]) =
      [mood_record ''stressed'' ''2024-01-01T12:00:00'',
       mood_record ''happy'' ''2024-01-01T12:30:00'',
       mood_record ''stressed'' ''2024-01-01T13:00:00'']"
    by (simp add: recent_moods_def)
  from correct_command[OF a1 a2[symmetric], of example_lib "\<lambda>m. noon" noon "Content example_text"]
    correct_command[OF b1 b2[symmetric], of counting_lib "\<lambda>m. 7" 7
      "save_memory counting_lib example_memory"
      "[(''recent_moods'',
            JArr [mood_record ''stressed'' ''2024-01-01T12:00:00'',
                  mood_record ''happy'' ''2024-01-01T12:30:00'',
                  mood_record ''stressed'' ''2024-01-01T13:00:00''])]"]
  moreover have "load_memory counting_lib (Content (json_dumps counting_lib m)) = m" for m
    using rt by (simp add: json_round_trip_def load_memory_def)
  ultimately show ?thesis using a1 a2 a3 b1 b2 b3 rt ld mm rm
    by (simp add: last_n_def memory_mapping_def recent_moods_def)
qed

section \<open>Properties of mood detection\<close>

lemma same_mood_records:
  "list_all is_record rs \<Longrightarrow> same_mood mood rs = Inr (filter (has_mood mood) rs)"
proof (induction rs)
  case Nil
  then show ?case by simp
next
  case (Cons r rs)
  then show ?case
    by (cases r) (auto simp: is_record_def has_mood_def split: option.splits)
qed

lemma find_rev_filter:
  "find P (rev xs) = (if filter P xs = [] then None else Some (last (filter P xs)))"
  by (induction xs rule: rev_induct) auto

lemma penalty_of_naive_timestamp:
  "penalty_of L now r =
     (case naive_timestamp L r of None \<Rightarrow> 0 | Some t \<Rightarrow> if now - t < minutes 60 then - f0_2 else 0)"
  by (cases r)
     (auto simp: penalty_of_def naive_timestamp_def split: option.splits json.splits datetime.splits)

lemma memory_state_load:
  assumes "memory_state mem"
  shows "py_get mem ''recent_moods'' (JArr []) = Inr (JArr (recent_moods mem))"
  using assms
  by (cases mem)
     (auto simp: memory_state_def memory_mapping_def recent_moods_def split: option.splits json.splits)

lemma recent_mood_bias_state:
  assumes "memory_state (load_memory L f)"
  shows "recent_mood_bias L now mood f =
           Inr (naive_recency_penalty L now mood (recent_moods (load_memory L f)))"
proof -
  have rs: "list_all is_record (recent_moods (load_memory L f))"
    using assms by (simp add: memory_state_def)
  show ?thesis
    by (simp add: recent_mood_bias_def memory_state_load[OF assms] same_mood_records[OF rs]
          naive_recency_penalty_def most_recent_def find_rev_filter penalty_of_naive_timestamp)
qed

text \<open>
  Claim C1, as amended. On a memory state \<open>recent_mood_bias\<close> returns -0.2 when the most
  recent record for the mood has a timestamp that reads as a naive datetime \<open>t\<close> with
  \<open>now - t < 60 minutes\<close>, and 0.0 in every other case: no record for the mood, no
  timestamp, one that does not parse, an offset-aware one, or one 60 minutes old or
  older. Only the most recent record counts: with the records split into earlier ones, a
  record \<open>r\<close> for the mood and later ones of which none is for the mood, the result is
  decided by the timestamp of \<open>r\<close> alone.
\<close>

theorem recent_mood_bias_most_recent:
  assumes "memory_state (load_memory L f)"
  shows "recent_mood_bias L now mood f =
           Inr (naive_recency_penalty L now mood (recent_moods (load_memory L f))) \<and>
         (recent_moods (load_memory L f) = earlier @ r # later \<and> has_mood mood r \<and>
            \<not> list_ex (has_mood mood) later \<longrightarrow>
          recent_mood_bias L now mood f =
            Inr (case naive_timestamp L r of
                   None \<Rightarrow> 0
                 | Some t \<Rightarrow> if now - t < minutes 60 then - f0_2 else 0))"
proof (intro conjI impI)
  show "recent_mood_bias L now mood f =
           Inr (naive_recency_penalty L now mood (recent_moods (load_memory L f)))"
    using assms by (rule recent_mood_bias_state)
next
  assume a: "recent_moods (load_memory L f) = earlier @ r # later \<and> has_mood mood r \<and>
            \<not> list_ex (has_mood mood) later"
  then have "filter (has_mood mood) later = []"
    by (auto simp: list_ex_iff filter_empty_conv)
  then have "filter (has_mood mood) (recent_moods (load_memory L f)) =
      filter (has_mood mood) earlier @ [r]"
    using a by simp
  then have "most_recent mood (recent_moods (load_memory L f)) = Some r"
    unfolding most_recent_def find_rev_filter by simp
  then show "recent_mood_bias L now mood f =
            Inr (case naive_timestamp L r of
                   None \<Rightarrow> 0
                 | Some t \<Rightarrow> if now - t < minutes 60 then - f0_2 else 0)"
    by (simp add: recent_mood_bias_state[OF assms] naive_recency_penalty_def)
qed

theorem recent_mood_bias_most_recent_witness:
  "memory_state (load_memory example_lib (Content example_text)) \<and>
   recent_mood_bias example_lib (noon + minutes 90) ''stressed'' (Content example_text) = Inr (- f0_2) \<and>
   recent_mood_bias example_lib (noon + minutes 90) ''happy'' (Content example_text) = Inr 0 \<and>
   recent_mood_bias example_lib (noon + minutes 90) ''sad'' (Content example_text) = Inr 0 \<and>
   recent_moods (load_memory example_lib (Content example_text)) =
     [mood_record ''stressed'' ''2024-01-01T12:00:00'', mood_record ''happy'' ''2024-01-01T12:30:00''] @
     mood_record ''stressed'' ''2024-01-01T13:00:00'' # [] \<and>
   has_mood ''stressed'' (mood_record ''stressed'' ''2024-01-01T13:00:00'') \<and>
   \<not> list_ex (has_mood ''stressed'') [] \<and>
   naive_timestamp example_lib (mood_record ''stressed'' ''2024-01-01T13:00:00'') = Some (noon + minutes 60)"
proof -
  have h: "memory_state (load_memory example_lib (Content example_text))"
    by code_simp
  have v1: "naive_recency_penalty example_lib (noon + minutes 90) ''stressed''
              (recent_moods (load_memory example_lib (Content example_text))) = - f0_2"
    by code_simp
  have v2: "naive_recency_penalty example_lib (noon + minutes 90) ''happy''
              (recent_moods (load_memory example_lib (Content example_text))) = 0"
    by code_simp
  have v3: "naive_recency_penalty example_lib (noon + minutes 90) ''sad''
              (recent_moods (load_memory example_lib (Content example_text))) = 0"
    by code_simp
  have r: "recent_moods (load_memory example_lib (Content example_text)) =
     [mood_record ''stressed'' ''2024-01-01T12:00:00'', mood_record ''happy'' ''2024-01-01T12:30:00''] @
     mood_record ''stressed'' ''2024-01-01T13:00:00'' # []"
    by code_simp
  have m: "has_mood ''stressed'' (mood_record ''stressed'' ''2024-01-01T13:00:00'')"
    by code_simp
  have t: "naive_timestamp example_lib (mood_record ''stressed'' ''2024-01-01T13:00:00'') = Some (noon + minutes 60)"
    by code_simp
  from recent_mood_bias_most_recent[OF h, of "noon + minutes 90" "''stressed''"]
    recent_mood_bias_most_recent[OF h, of "noon + minutes 90" "''happy''"]
    recent_mood_bias_most_recent[OF h, of "noon + minutes 90" "''sad''"]
  show ?thesis using h v1 v2 v3 r m t by simp
qed

text \<open>
  Claim C1 as stated fails in two ways. A stressed record stamped 13:00 with the offset
  of UTC is 30 minutes old at 13:30, within 60 minutes of the current time, and gets no
  penalty. And at 11:00 the most recent stressed record of the example memory, stamped
  13:00, lies two hours ahead, not within 60 minutes of the current time, and gets the
  penalty.
\<close>

theorem recent_mood_bias_counterexample:
  "memory_state (load_memory example_lib (Content aware_text)) \<and>
   spec_recency_penalty example_lib (noon + minutes 90) ''stressed''
     (recent_moods (load_memory example_lib (Content aware_text))) = - f0_2 \<and>
   recent_mood_bias example_lib (noon + minutes 90) ''stressed'' (Content aware_text) = Inr 0 \<and>
   memory_state (load_memory example_lib (Content example_text)) \<and>
   spec_recency_penalty example_lib (noon - minutes 60) ''stressed''
     (recent_moods (load_memory example_lib (Content example_text))) = 0 \<and>
   recent_mood_bias example_lib (noon - minutes 60) ''stressed'' (Content example_text) =
     Inr (- f0_2) \<and>
   - f0_2 \<noteq> 0"
  by code_simp

lemma map_fst_add_score: "map fst (add_score m c sc) = map fst sc"
  by (induction sc) auto

lemma map_of_add_score:
  "map_of (add_score m c sc) k =
     (if k = m then map_option (\<lambda>v. fadd v c) (map_of sc m) else map_of sc k)"
  by (induction sc) auto

lemma map_fst_keyword_loop:
  "map fst (fst (keyword_loop t table (sc, rs))) = map fst sc"
  by (induction table arbitrary: sc rs) (auto simp: Let_def map_fst_add_score)

lemma map_fst_sentiment_rule:
  "map fst (fst (sentiment_rule c (sc, rs))) = map fst sc"
  by (simp add: map_fst_add_score)

lemma map_fst_recency_loop:
  "recency_loop L clock f ms (sc, rs) = Inr (sc', rs') \<Longrightarrow> map fst sc' = map fst sc"
proof (induction ms arbitrary: sc rs)
  case Nil
  then show ?case by simp
next
  case (Cons m ms)
  then show ?case
    by (auto simp: map_fst_add_score split: sum.splits)
qed

lemma max_from_split:
  "\<exists>before after. b # ps = before @ max_from ps b # after \<and>
     (\<forall>p\<in>set before. snd p < snd (max_from ps b)) \<and>
     (\<forall>p\<in>set after. snd p \<le> snd (max_from ps b))"
proof (induction ps arbitrary: b)
  case Nil
  have "[b] = [] @ max_from [] b # []" by simp
  then show ?case by force
next
  case (Cons p ps)
  define b' where "b' = (if snd b < snd p then p else b)"
  define m where "m = max_from ps b'"
  from Cons[of b'] obtain before after where
    d: "b' # ps = before @ m # after"
       "\<forall>q\<in>set before. snd q < snd m" "\<forall>q\<in>set after. snd q \<le> snd m"
    unfolding m_def by blast
  have m: "max_from (p # ps) b = m" by (simp add: m_def b'_def)
  have ge: "snd b' \<le> snd m"
  proof (cases before)
    case Nil
    with d(1) show ?thesis by simp
  next
    case (Cons x xs)
    with d(1) have "b' \<in> set before" by simp
    with d(2) show ?thesis by fastforce
  qed
  show ?case
  proof (cases "snd b < snd p")
    case True
    then have b': "b' = p" by (simp add: b'_def)
    have "b # p # ps = (b # before) @ m # after" using d(1) b' by simp
    moreover have "\<forall>q\<in>set (b # before). snd q < snd m"
      using d(2) True ge b' by auto
    ultimately show ?thesis unfolding m using d(3) by blast
  next
    case False
    then have b': "b' = b" by (simp add: b'_def)
    show ?thesis
    proof (cases before)
      case Nil
      then have mb: "m = b" and aft: "after = ps"
        using d(1) b' by auto
      have "b # p # ps = [] @ m # (p # ps)"
        using mb by simp
      moreover have "\<forall>q\<in>set (p # ps). snd q \<le> snd m"
        using d(3) False mb aft by auto
      ultimately show ?thesis unfolding m by (metis empty_iff list.set(1))
    next
      case (Cons x xs)
      then have x: "x = b" and ps: "ps = xs @ m # after"
        using d(1) b' by auto
      have "b # p # ps = (b # p # xs) @ m # after"
        using ps by simp
      moreover have "\<forall>q\<in>set (b # p # xs). snd q < snd m"
        using d(2) Cons x False by auto
      ultimately show ?thesis unfolding m using d(3) by blast
    qed
  qed
qed

lemma detect_mood_unfold:
  "detect_mood L clock text f =
     (case recency_loop L clock f ALL_MOODS
             (sentiment_rule (polarity_compound L (lower text))
                (keyword_loop (lower text) MOOD_KEYWORDS (start_scores, []))) of
        Inl e \<Rightarrow> Inl e
      | Inr (scores, reasons) \<Rightarrow>
          (case py_max scores of
             Inl e \<Rightarrow> Inl e
           | Inr mood \<Rightarrow> Inr (mood, polarity_compound L (lower text), reasons, scores)))"
  by (simp add: detect_mood_def start_scores_def Let_def)

lemma detect_mood_InrD:
  assumes "detect_mood L clock text f = Inr (mood, c, reasons, scores)"
  shows "c = polarity_compound L (lower text)"
    and "recency_loop L clock f ALL_MOODS
           (sentiment_rule c (keyword_loop (lower text) MOOD_KEYWORDS (start_scores, []))) =
         Inr (scores, reasons)"
    and "py_max scores = Inr mood"
  using assms by (auto simp: detect_mood_unfold split: sum.splits prod.splits)

lemma detect_mood_keys:
  assumes "detect_mood L clock text f = Inr (mood, c, reasons, scores)"
  shows "map fst scores = ALL_MOODS"
proof -
  obtain sc rs where k: "keyword_loop (lower text) MOOD_KEYWORDS (start_scores, []) = (sc, rs)"
    by (cases "keyword_loop (lower text) MOOD_KEYWORDS (start_scores, [])")
  obtain sc' rs' where s: "sentiment_rule c (sc, rs) = (sc', rs')"
    by (cases "sentiment_rule c (sc, rs)")
  have "map fst sc = map fst start_scores"
    using map_fst_keyword_loop[of "lower text" MOOD_KEYWORDS start_scores "[]"] k by simp
  moreover have "map fst sc' = map fst sc"
    using map_fst_sentiment_rule[of c sc rs] s by simp
  moreover have "map fst scores = map fst sc'"
    using detect_mood_InrD(2)[OF assms] k s map_fst_recency_loop by simp
  ultimately show ?thesis by (simp add: start_scores_def comp_def)
qed

lemma recency_loop_total:
  "list_all (\<lambda>m. \<exists>a. recent_mood_bias L (clock m) m f = Inr a) ms \<Longrightarrow>
   \<exists>r. recency_loop L clock f ms acc = Inr r"
proof (induction ms arbitrary: acc)
  case Nil
  then show ?case by simp
next
  case (Cons m ms)
  obtain sc rs where acc: "acc = (sc, rs)" by (cases acc)
  from Cons.prems obtain a where a: "recent_mood_bias L (clock m) m f = Inr a" by auto
  from Cons.prems have "list_all (\<lambda>m. \<exists>a. recent_mood_bias L (clock m) m f = Inr a) ms" by simp
  from Cons.IH[OF this] show ?case by (simp add: acc a)
qed

lemma detect_mood_total:
  assumes "memory_state (load_memory L f)"
  shows "\<exists>r. detect_mood L clock text f = Inr r"
proof -
  have "list_all (\<lambda>m. \<exists>a. recent_mood_bias L (clock m) m f = Inr a) ALL_MOODS"
    by (simp add: list_all_iff recent_mood_bias_state[OF assms])
  from recency_loop_total[OF this] obtain r0 where "recency_loop L clock f ALL_MOODS
         (sentiment_rule (polarity_compound L (lower text))
            (keyword_loop (lower text) MOOD_KEYWORDS (start_scores, []))) = Inr r0"
    by blast
  then obtain sc rs where r: "recency_loop L clock f ALL_MOODS
         (sentiment_rule (polarity_compound L (lower text))
            (keyword_loop (lower text) MOOD_KEYWORDS (start_scores, []))) = Inr (sc, rs)"
    by (cases r0) simp
  obtain k0 rs0 where k: "keyword_loop (lower text) MOOD_KEYWORDS (start_scores, []) = (k0, rs0)"
    by (cases "keyword_loop (lower text) MOOD_KEYWORDS (start_scores, [])")
  obtain s0 rs1 where s: "sentiment_rule (polarity_compound L (lower text)) (k0, rs0) = (s0, rs1)"
    by (cases "sentiment_rule (polarity_compound L (lower text)) (k0, rs0)")
  have "map fst sc = ALL_MOODS"
    using map_fst_recency_loop[of L clock f ALL_MOODS s0 rs1 sc rs] r k s
      map_fst_sentiment_rule[of "polarity_compound L (lower text)" k0 rs0]
      map_fst_keyword_loop[of "lower text" MOOD_KEYWORDS start_scores "[]"]
    by (simp add: start_scores_def comp_def)
  then have "sc \<noteq> []" by (auto simp: ALL_MOODS_def)
  then obtain p ps where "sc = p # ps" by (cases sc) auto
  then show ?thesis
    by (simp add: detect_mood_unfold r py_max_def)
qed

text \<open>The steps of \<open>detect_mood\<close>: one pass over the keywords from the zero scores, one
  sentiment rule on the compound score of the lower-cased text, one recency pass.\<close>

lemma detect_mood_steps:
  assumes "detect_mood L clock text f = Inr (mood, c, reasons, scores)"
  shows "c = polarity_compound L (lower text) \<and>
         recency_loop L clock f ALL_MOODS
           (sentiment_rule c (keyword_loop (lower text) MOOD_KEYWORDS (start_scores, []))) =
         Inr (scores, reasons)"
  using detect_mood_InrD(1,2)[OF assms] by simp

text \<open>
  Claim C2. On a memory state \<open>detect_mood\<close> returns a result. Whenever it returns, the
  scores returned are the final scores: those that the recency pass leaves after the
  keyword pass from the zero scores and the sentiment rule for the compound score of the
  lower-cased text. They are the scores of the five moods in declaration order, the mood
  returned is one of the five, its score is strictly above the score of every mood
  declared before it and at least the score of every mood declared after it: the
  maximum of the final scores, and among equal maxima the first declared.
\<close>

theorem detect_mood_argmax:
  "(memory_state (load_memory L f) \<longrightarrow> (\<exists>r. detect_mood L clock text f = Inr r)) \<and>
   (detect_mood L clock text f = Inr (mood, c, reasons, scores) \<longrightarrow>
      c = polarity_compound L (lower text) \<and>
      recency_loop L clock f ALL_MOODS
        (sentiment_rule c (keyword_loop (lower text) MOOD_KEYWORDS (start_scores, []))) =
      Inr (scores, reasons) \<and>
      mood \<in> set ALL_MOODS \<and> map fst scores = ALL_MOODS \<and>
      (\<exists>before s after. scores = before @ (mood, s) # after \<and>
         (\<forall>p\<in>set before. snd p < s) \<and> (\<forall>p\<in>set after. snd p \<le> s)))"
proof (intro conjI impI)
  assume "memory_state (load_memory L f)"
  then show "\<exists>r. detect_mood L clock text f = Inr r" by (rule detect_mood_total)
next
  assume a: "detect_mood L clock text f = Inr (mood, c, reasons, scores)"
  show "c = polarity_compound L (lower text)"
    using detect_mood_steps[OF a] by (rule conjunct1)
  show "recency_loop L clock f ALL_MOODS
        (sentiment_rule c (keyword_loop (lower text) MOOD_KEYWORDS (start_scores, []))) =
      Inr (scores, reasons)"
    using detect_mood_steps[OF a] by (rule conjunct2)
  show keys: "map fst scores = ALL_MOODS" using a by (rule detect_mood_keys)
  then obtain p ps where sc: "scores = p # ps" by (cases scores) (auto simp: ALL_MOODS_def)
  with detect_mood_InrD(3)[OF a] have mood: "mood = fst (max_from ps p)"
    by (simp add: py_max_def)
  from max_from_split[of p ps] obtain before after where
    d: "p # ps = before @ max_from ps p # after"
       "\<forall>q\<in>set before. snd q < snd (max_from ps p)"
       "\<forall>q\<in>set after. snd q \<le> snd (max_from ps p)"
    by blast
  define s where "s = snd (max_from ps p)"
  have "max_from ps p = (mood, s)" using mood by (simp add: s_def)
  then have e: "scores = before @ (mood, s) # after"
    using d(1) sc by simp
  have "(\<forall>p\<in>set before. snd p < s) \<and> (\<forall>p\<in>set after. snd p \<le> s)"
    using d(2,3) by (simp add: s_def)
  with e show "\<exists>before s after. scores = before @ (mood, s) # after \<and>
         (\<forall>p\<in>set before. snd p < s) \<and> (\<forall>p\<in>set after. snd p \<le> s)"
    by blast
  from e have "mood \<in> set (map fst scores)" by simp
  then show "mood \<in> set ALL_MOODS" using keys by simp
qed

theorem detect_mood_argmax_witness:
  "memory_state (load_memory example_lib (Content example_text)) \<and>
   (\<exists>r. detect_mood example_lib (\<lambda>m. noon + minutes 90) ''I feel great''
          (Content example_text) = Inr r) \<and>
   detect_mood example_lib (\<lambda>m. noon + minutes 90) ''overwhelmedx drainedx'' Missing =
     Inr (''stressed'', 0,
          [KeywordHits ''stressed'' [''overwhelmed''], KeywordHits ''tired'' [''drained''],
           Sentiment ''neutral'' 0 ''neutral''],
          [(''stressed'', f0_6), (''tired'', f0_6), (''sad'', 0), (''happy'', 0),
           (''neutral'', f0_2)]) \<and>
   0 = polarity_compound example_lib (lower ''overwhelmedx drainedx'') \<and>
   recency_loop example_lib (\<lambda>m. noon + minutes 90) Missing ALL_MOODS
     (sentiment_rule 0
        (keyword_loop (lower ''overwhelmedx drainedx'') MOOD_KEYWORDS (start_scores, []))) =
     Inr ([(''stressed'', f0_6), (''tired'', f0_6), (''sad'', 0), (''happy'', 0),
           (''neutral'', f0_2)],
          [KeywordHits ''stressed'' [''overwhelmed''], KeywordHits ''tired'' [''drained''],
           Sentiment ''neutral'' 0 ''neutral'']) \<and>
   ''stressed'' \<in> set ALL_MOODS \<and>
   map fst [(''stressed'', f0_6), (''tired'', f0_6), (''sad'', 0), (''happy'', 0),
            (''neutral'', f0_2)] = ALL_MOODS \<and>
   (\<exists>before s after.
      [(''stressed'', f0_6), (''tired'', f0_6), (''sad'', 0), (''happy'', 0), (''neutral'', f0_2)] =
        before @ (''stressed'', s) # after \<and>
      (\<forall>p\<in>set before. snd p < s) \<and> (\<forall>p\<in>set after. snd p \<le> s))"
proof -
  have h1: "memory_state (load_memory example_lib (Content example_text))"
    by code_simp
  have h2: "detect_mood example_lib (\<lambda>m. noon + minutes 90) ''overwhelmedx drainedx'' Missing =
     Inr (''stressed'', 0,
          [KeywordHits ''stressed'' [''overwhelmed''], KeywordHits ''tired'' [''drained''],
           Sentiment ''neutral'' 0 ''neutral''],
          [(''stressed'', f0_6), (''tired'', f0_6), (''sad'', 0), (''happy'', 0),
           (''neutral'', f0_2)])"
    by code_simp
  from detect_mood_argmax[of example_lib "Content example_text" "\<lambda>m. noon + minutes 90"
      "''I feel great''"]
    detect_mood_argmax[of example_lib Missing "\<lambda>m. noon + minutes 90"
      "''overwhelmedx drainedx''" "''stressed''" 0
      "[KeywordHits ''stressed'' [''overwhelmed''], KeywordHits ''tired'' [''drained''],
           Sentiment ''neutral'' 0 ''neutral'']"
      "[(''stressed'', f0_6), (''tired'', f0_6), (''sad'', 0), (''happy'', 0),
           (''neutral'', f0_2)]"]
  show ?thesis using h1 h2 by blast
qed

subsection \<open>Doubles and the thresholds of the sentiment rules\<close>

text \<open>The literals 0.5 and 0.05 as doubles, and the comparison of a double with 0.05:
  no double lies between 1/20 and the double nearest to it.\<close>

lemma f0_5_val: "f0_5 = 1 / 2" by code_simp
lemma f0_05_val: "f0_05 = 7205759403792794 / 2 ^ 57" by code_simp

lemma bitlen_5: "16 \<le> x \<Longrightarrow> x < 32 \<Longrightarrow> bitlen x = 5"
proof -
  assume a: "16 \<le> x" "x < 32"
  have "bitlen x \<le> 5" using a by (simp add: bitlen_le_iff_power)
  moreover have "5 \<le> bitlen x" using a by (simp add: bitlen_ge_iff_power)
  ultimately show ?thesis by simp
qed

lemma ilog2_binade:
  fixes q :: rat
  assumes "1 / 32 \<le> q" and "q < 1 / 16"
  shows "ilog2 q = - 5"
proof -
  have pos: "0 < q" using assms by simp
  have "16 < 1 / q" using assms pos by (simp add: field_simps)
  then have lo: "17 \<le> \<lceil>1 / q\<rceil>" by (simp add: less_ceiling_iff flip: zless_add1_eq)
  have "1 / q \<le> 32" using assms pos by (simp add: field_simps)
  then have hi: "\<lceil>1 / q\<rceil> \<le> 32" by (simp add: ceiling_le_iff)
  have "bitlen (\<lceil>1 / q\<rceil> - 1) = 5"
    using lo hi by (intro bitlen_5) auto
  moreover have "\<not> 1 \<le> q" using assms by simp
  ultimately show ?thesis by (simp add: ilog2_def)
qed

lemma powi_m57: "(2::rat) powi (- 57) = 1 / 2 ^ 57"
  by (simp add: power_int_minus field_simps)

lemma to_double_unfold:
  "q \<noteq> 0 \<Longrightarrow> ilog2 \<bar>q\<bar> = e \<Longrightarrow> - 1022 \<le> e \<Longrightarrow>
   to_double q = of_int (round_half_even (q / 2 powi (e - 52))) * 2 powi (e - 52)"
  unfolding to_double_def Let_def by (simp add: max_def)

lemma double_grid:
  fixes c :: rat
  assumes "to_double c = c" and "1 / 32 \<le> \<bar>c\<bar>" and "\<bar>c\<bar> < 1 / 16"
  shows "\<exists>n::int. c = of_int n / 2 ^ 57"
proof -
  have nz: "c \<noteq> 0" using assms(2) by auto
  have e: "ilog2 \<bar>c\<bar> = - 5" using assms(2,3) by (rule ilog2_binade)
  have "c = to_double c" using assms(1) by (rule sym)
  also have "\<dots> = of_int (round_half_even (c / 2 powi (- 5 - 52))) * 2 powi (- 5 - 52)"
    using nz e by (rule to_double_unfold) simp
  also have "\<dots> = of_int (round_half_even (c / 2 powi (- 5 - 52))) / 2 ^ 57"
    by (simp add: powi_m57)
  finally show ?thesis by (rule exI)
qed

lemma double_ge_0_05:
  fixes c :: rat
  assumes "to_double c = c"
  shows "f0_05 \<le> c \<longleftrightarrow> 1 / 20 \<le> c"
proof
  assume "f0_05 \<le> c"
  then show "1 / 20 \<le> c" by (simp add: f0_05_val)
next
  assume a: "1 / 20 \<le> c"
  show "f0_05 \<le> c"
  proof (rule ccontr)
    assume "\<not> f0_05 \<le> c"
    then have b: "c < 7205759403792794 / 2 ^ 57" by (simp add: f0_05_val)
    have "1 / 32 \<le> \<bar>c\<bar>" "\<bar>c\<bar> < 1 / 16" using a b by auto
    from double_grid[OF assms this] obtain n :: int where n: "c = of_int n / 2 ^ 57" by blast
    have "(1::rat) / 20 \<le> of_int n / 2 ^ 57" using a n by simp
    then have "(2::rat) ^ 57 \<le> 20 * of_int n" by (simp add: field_simps)
    then have "(of_int ((2::int) ^ 57) :: rat) \<le> of_int (20 * n)" by simp
    then have i1: "(2::int) ^ 57 \<le> 20 * n" by (simp only: of_int_le_iff)
    have "(of_int n :: rat) / 2 ^ 57 < 7205759403792794 / 2 ^ 57" using b n by simp
    then have "(of_int n :: rat) < of_int 7205759403792794" by (simp add: field_simps)
    then have i2: "n < 7205759403792794" by (simp only: of_int_less_iff)
    from i1 i2 show False by simp
  qed
qed

lemma double_le_minus_0_05:
  fixes c :: rat
  assumes "to_double c = c"
  shows "c \<le> - f0_05 \<longleftrightarrow> c \<le> - (1 / 20)"
proof
  assume "c \<le> - f0_05"
  then show "c \<le> - (1 / 20)" by (simp add: f0_05_val)
next
  assume a: "c \<le> - (1 / 20)"
  show "c \<le> - f0_05"
  proof (rule ccontr)
    assume "\<not> c \<le> - f0_05"
    then have b: "- (7205759403792794 / 2 ^ 57) < c" by (simp add: f0_05_val)
    have "1 / 32 \<le> \<bar>c\<bar>" "\<bar>c\<bar> < 1 / 16" using a b by auto
    from double_grid[OF assms this] obtain n :: int where n: "c = of_int n / 2 ^ 57" by blast
    have "of_int n / 2 ^ 57 \<le> - ((1::rat) / 20)" using a n by simp
    then have "20 * of_int n \<le> - ((2::rat) ^ 57)" by (simp add: field_simps)
    then have "(of_int (20 * n) :: rat) \<le> of_int (- ((2::int) ^ 57))" by simp
    then have i1: "20 * n \<le> - ((2::int) ^ 57)" by (simp only: of_int_le_iff)
    have "- (7205759403792794 / 2 ^ 57) < (of_int n :: rat) / 2 ^ 57" using b n by simp
    then have "(of_int (- 7205759403792794) :: rat) < of_int n" by (simp add: field_simps)
    then have i2: "- 7205759403792794 < n" by (simp only: of_int_less_iff)
    from i1 i2 show False by simp
  qed
qed

text \<open>
  Claim C3. The compound score \<open>c\<close> is a double. \<open>detect_mood\<close> applies \<open>sentiment_rule\<close>
  once, to the compound score of the lower-cased text, and the rule is the one of the
  five whose condition holds: from 0.5 up, 0.5 more for happy; from 0.05 up and below
  0.5, 0.2 more for happy; down from -0.5, 0.5 more for sad; above -0.5 and down from
  -0.05, 0.2 more for stressed; and strictly between -0.05 and 0.05, 0.2 more for
  neutral. Adding to a mood's score changes that score and no other.
\<close>

theorem sentiment_rule_cases:
  assumes "to_double c = c"
  shows "(1 / 2 \<le> c \<longrightarrow>
            fst (sentiment_rule c (scores, reasons)) = add_score ''happy'' f0_5 scores) \<and>
         (1 / 20 \<le> c \<and> c < 1 / 2 \<longrightarrow>
            fst (sentiment_rule c (scores, reasons)) = add_score ''happy'' f0_2 scores) \<and>
         (c \<le> - (1 / 2) \<longrightarrow>
            fst (sentiment_rule c (scores, reasons)) = add_score ''sad'' f0_5 scores) \<and>
         (- (1 / 2) < c \<and> c \<le> - (1 / 20) \<longrightarrow>
            fst (sentiment_rule c (scores, reasons)) = add_score ''stressed'' f0_2 scores) \<and>
         (\<bar>c\<bar> < 1 / 20 \<longrightarrow>
            fst (sentiment_rule c (scores, reasons)) = add_score ''neutral'' f0_2 scores) \<and>
         (map_of scores mood = Some v \<longrightarrow>
            map_of (add_score mood x scores) mood = Some (fadd v x)) \<and>
         (other \<noteq> mood \<longrightarrow> map_of (add_score mood x scores) other = map_of scores other) \<and>
         (detect_mood L clock text f = Inr (mood', c, reasons', scores') \<longrightarrow>
            c = polarity_compound L (lower text) \<and>
            recency_loop L clock f ALL_MOODS
              (sentiment_rule c (keyword_loop (lower text) MOOD_KEYWORDS (start_scores, []))) =
            Inr (scores', reasons'))"
  using double_ge_0_05[OF assms] double_le_minus_0_05[OF assms]
    detect_mood_steps[of L clock "text" f mood' c reasons' scores']
  by (auto simp: f0_5_val map_of_add_score)

theorem sentiment_rule_cases_witness:
  "to_double (to_double (6249 / 10000)) = to_double (6249 / 10000) \<and>
   1 / 2 \<le> to_double (6249 / 10000) \<and>
   fst (sentiment_rule (to_double (6249 / 10000)) (start_scores, [])) =
     add_score ''happy'' f0_5 start_scores \<and>
   to_double (1 / 4) = 1 / 4 \<and> (1::rat) / 20 \<le> 1 / 4 \<and> (1::rat) / 4 < 1 / 2 \<and>
   fst (sentiment_rule (1 / 4) (start_scores, [])) = add_score ''happy'' f0_2 start_scores \<and>
   to_double (- (3 / 4)) = - (3 / 4) \<and> - (3 / 4) \<le> - ((1::rat) / 2) \<and>
   fst (sentiment_rule (- (3 / 4)) (start_scores, [])) = add_score ''sad'' f0_5 start_scores \<and>
   to_double (- (1 / 4)) = - (1 / 4) \<and> - ((1::rat) / 2) < - (1 / 4) \<and>
   - (1 / 4) \<le> - ((1::rat) / 20) \<and>
   fst (sentiment_rule (- (1 / 4)) (start_scores, [])) = add_score ''stressed'' f0_2 start_scores \<and>
   to_double 0 = 0 \<and> \<bar>0::rat\<bar> < 1 / 20 \<and>
   fst (sentiment_rule 0 (start_scores, [])) = add_score ''neutral'' f0_2 start_scores \<and>
   map_of start_scores ''neutral'' = Some 0 \<and>
   map_of (add_score ''neutral'' f0_2 start_scores) ''neutral'' = Some (fadd 0 f0_2) \<and>
   ''happy'' \<noteq> ''neutral'' \<and>
   map_of (add_score ''neutral'' f0_2 start_scores) ''happy'' = map_of start_scores ''happy'' \<and>
   detect_mood example_lib (\<lambda>m. noon) ''xAnxious xPANIC xstress'' Missing =
     Inr (''stressed'', 0,
          [KeywordHits ''stressed'' [''anxious'', ''stress'', ''panic''],
           Sentiment ''neutral'' 0 ''neutral''],
          [(''stressed'', f0_6), (''tired'', 0), (''sad'', 0), (''happy'', 0), (''neutral'', f0_2)]) \<and>
   0 = polarity_compound example_lib (lower ''xAnxious xPANIC xstress'')"
proof -
  have d1: "to_double (to_double (6249 / 10000)) = to_double (6249 / 10000)" by code_simp
  have d2: "to_double (1 / 4) = 1 / 4" by code_simp
  have d3: "to_double (- (3 / 4)) = - (3 / 4)" by code_simp
  have d4: "to_double (- (1 / 4)) = - (1 / 4)" by code_simp
  have d5: "to_double 0 = 0" by code_simp
  have g1: "1 / 2 \<le> to_double (6249 / 10000)" by code_simp
  have s: "map_of start_scores ''neutral'' = Some 0" by code_simp
  have r: "detect_mood example_lib (\<lambda>m. noon) ''xAnxious xPANIC xstress'' Missing =
     Inr (''stressed'', 0,
          [KeywordHits ''stressed'' [''anxious'', ''stress'', ''panic''],
           Sentiment ''neutral'' 0 ''neutral''],
          [(''stressed'', f0_6), (''tired'', 0), (''sad'', 0), (''happy'', 0), (''neutral'', f0_2)])"
    by code_simp
  from sentiment_rule_cases[OF d1, of start_scores "[]"]
    sentiment_rule_cases[OF d2, of start_scores "[]"]
    sentiment_rule_cases[OF d3, of start_scores "[]"]
    sentiment_rule_cases[OF d4, of start_scores "[]"]
    sentiment_rule_cases[OF d5, of start_scores "[]" "''neutral''" 0 f0_2 "''happy''"
      example_lib "\<lambda>m. noon" "''xAnxious xPANIC xstress''" Missing "''stressed''"
      "[KeywordHits ''stressed'' [''anxious'', ''stress'', ''panic''],
           Sentiment ''neutral'' 0 ''neutral'']"
      "[(''stressed'', f0_6), (''tired'', 0), (''sad'', 0), (''happy'', 0), (''neutral'', f0_2)]"]
  show ?thesis using d1 d2 d3 d4 d5 g1 s r by simp
qed

subsection \<open>The keyword pass\<close>

lemma keyword_loop_map_of:
  "distinct (map fst table) \<Longrightarrow>
   map_of (fst (keyword_loop t table (sc, rs))) m =
     (case map_of table m of
        None \<Rightarrow> map_of sc m
      | Some kws \<Rightarrow>
          if list_ex (\<lambda>kw. sublist kw t) kws then map_option (\<lambda>v. fadd v f0_6) (map_of sc m)
          else map_of sc m)"
proof (induction table arbitrary: sc rs)
  case Nil
  then show ?case by simp
next
  case (Cons p table)
  obtain mood kws where p: "p = (mood, kws)" by (cases p)
  have d: "distinct (map fst table)" and nin: "mood \<notin> fst ` set table"
    using Cons.prems by (auto simp: p)
  have none: "map_of table mood = None"
    using nin by (simp add: map_of_eq_None_iff)
  have hits: "filter (\<lambda>kw. sublist kw t) kws \<noteq> [] \<longleftrightarrow> list_ex (\<lambda>kw. sublist kw t) kws"
    by (auto simp: filter_empty_conv list_ex_iff)
  show ?case
  proof (cases "list_ex (\<lambda>kw. sublist kw t) kws")
    case True
    then show ?thesis
      using Cons.IH[OF d, of "add_score mood f0_6 sc"] hits none
      by (auto simp: p Let_def map_of_add_score split: option.splits)
  next
    case False
    then show ?thesis
      using Cons.IH[OF d, of sc rs] hits none
      by (auto simp: p Let_def split: option.splits)
  qed
qed

lemma distinct_MOOD_KEYWORDS: "distinct (map fst MOOD_KEYWORDS)"
  by (simp add: MOOD_KEYWORDS_def)

lemma fadd_0_f0_6: "fadd 0 f0_6 = f0_6"
  by code_simp

lemma start_scores_map_of: "mood \<in> set ALL_MOODS \<Longrightarrow> map_of start_scores mood = Some 0"
  by (auto simp: start_scores_def ALL_MOODS_def)

text \<open>
  Claim C9. The keyword pass adds 0.6 to the score of a mood exactly when one of the
  mood's keywords occurs in the lower-cased text, and adds it once, however many of them
  occur; the score of a mood without a hit, and of a mood without a keyword list, stays
  as it was. In \<open>detect_mood\<close> the pass runs once, from the zero scores, so it leaves 0.6
  for a mood with a hit and 0.0 for every other mood.
\<close>

theorem keyword_contribution:
  "(map_of scores mood = Some v \<longrightarrow>
      map_of (fst (keyword_loop (lower text) MOOD_KEYWORDS (scores, reasons))) mood =
        Some (if keyword_hit (lower text) mood then fadd v f0_6 else v)) \<and>
   (mood \<in> set ALL_MOODS \<longrightarrow>
      map_of (fst (keyword_loop (lower text) MOOD_KEYWORDS (start_scores, []))) mood =
        Some (if keyword_hit (lower text) mood then f0_6 else 0)) \<and>
   (detect_mood L clock text f = Inr (mood', c, reasons', scores') \<longrightarrow>
      recency_loop L clock f ALL_MOODS
        (sentiment_rule c (keyword_loop (lower text) MOOD_KEYWORDS (start_scores, []))) =
      Inr (scores', reasons'))"
proof -
  have general: "map_of (fst (keyword_loop (lower text) MOOD_KEYWORDS (sc, rs))) mood =
        Some (if keyword_hit (lower text) mood then fadd w f0_6 else w)"
    if "map_of sc mood = Some w" for sc rs w
    using that keyword_loop_map_of[OF distinct_MOOD_KEYWORDS, of "lower text" sc rs mood]
    by (auto simp: keyword_hit_def split: option.splits)
  show ?thesis
    using general[of scores v reasons] general[of start_scores 0 "[]"]
      start_scores_map_of[of mood] detect_mood_steps[of L clock "text" f mood' c reasons' scores']
    by (auto simp: fadd_0_f0_6)
qed

theorem keyword_contribution_witness:
  "map_of [(''stressed'', f0_2), (''neutral'', 0)] ''stressed'' = Some f0_2 \<and>
   keyword_hit (lower ''xAnxious xPANIC xstress'') ''stressed'' \<and>
   map_of (fst (keyword_loop (lower ''xAnxious xPANIC xstress'') MOOD_KEYWORDS
                  ([(''stressed'', f0_2), (''neutral'', 0)], []))) ''stressed'' =
     Some (fadd f0_2 f0_6) \<and>
   ''stressed'' \<in> set ALL_MOODS \<and>
   map_of (fst (keyword_loop (lower ''xAnxious xPANIC xstress'') MOOD_KEYWORDS
                  (start_scores, []))) ''stressed'' = Some f0_6 \<and>
   ''tired'' \<in> set ALL_MOODS \<and>
   \<not> keyword_hit (lower ''xAnxious xPANIC xstress'') ''tired'' \<and>
   map_of (fst (keyword_loop (lower ''xAnxious xPANIC xstress'') MOOD_KEYWORDS
                  (start_scores, []))) ''tired'' = Some 0 \<and>
   ''neutral'' \<in> set ALL_MOODS \<and>
   \<not> keyword_hit (lower ''xAnxious xPANIC xstress'') ''neutral'' \<and>
   map_of (fst (keyword_loop (lower ''xAnxious xPANIC xstress'') MOOD_KEYWORDS
                  (start_scores, []))) ''neutral'' = Some 0 \<and>
   detect_mood example_lib (\<lambda>m. noon) ''xAnxious xPANIC xstress'' Missing =
     Inr (''stressed'', 0,
          [KeywordHits ''stressed'' [''anxious'', ''stress'', ''panic''],
           Sentiment ''neutral'' 0 ''neutral''],
          [(''stressed'', f0_6), (''tired'', 0), (''sad'', 0), (''happy'', 0), (''neutral'', f0_2)]) \<and>
   recency_loop example_lib (\<lambda>m. noon) Missing ALL_MOODS
     (sentiment_rule 0
        (keyword_loop (lower ''xAnxious xPANIC xstress'') MOOD_KEYWORDS (start_scores, []))) =
     Inr ([(''stressed'', f0_6), (''tired'', 0), (''sad'', 0), (''happy'', 0), (''neutral'', f0_2)],
          [KeywordHits ''stressed'' [''anxious'', ''stress'', ''panic''],
           Sentiment ''neutral'' 0 ''neutral''])"
proof -
  have a: "map_of [(''stressed'', f0_2), (''neutral'', 0)] ''stressed'' = Some f0_2" by simp
  have h1: "keyword_hit (lower ''xAnxious xPANIC xstress'') ''stressed''" by code_simp
  have h2: "\<not> keyword_hit (lower ''xAnxious xPANIC xstress'') ''tired''" by code_simp
  have h3: "\<not> keyword_hit (lower ''xAnxious xPANIC xstress'') ''neutral''" by code_simp
  have m: "''stressed'' \<in> set ALL_MOODS" "''tired'' \<in> set ALL_MOODS" "''neutral'' \<in> set ALL_MOODS"
    by (simp_all add: ALL_MOODS_def)
  have r: "detect_mood example_lib (\<lambda>m. noon) ''xAnxious xPANIC xstress'' Missing =
     Inr (''stressed'', 0,
          [KeywordHits ''stressed'' [''anxious'', ''stress'', ''panic''],
           Sentiment ''neutral'' 0 ''neutral''],
          [(''stressed'', f0_6), (''tired'', 0), (''sad'', 0), (''happy'', 0), (''neutral'', f0_2)])"
    by code_simp
  from keyword_contribution[of "[(''stressed'', f0_2), (''neutral'', 0)]" "''stressed''" f0_2
      "''xAnxious xPANIC xstress''" "[]" example_lib "\<lambda>m. noon" Missing "''stressed''" 0
      "[KeywordHits ''stressed'' [''anxious'', ''stress'', ''panic''],
           Sentiment ''neutral'' 0 ''neutral'']"
      "[(''stressed'', f0_6), (''tired'', 0), (''sad'', 0), (''happy'', 0), (''neutral'', f0_2)]"]
    keyword_contribution[of scores "''tired''" v "''xAnxious xPANIC xstress''"]
    keyword_contribution[of scores "''neutral''" v "''xAnxious xPANIC xstress''"]
  show ?thesis using a h1 h2 h3 m r by simp
qed

subsection \<open>A stressed keyword in a text of neutral sentiment\<close>

lemma keyword_loop_hit:
  assumes "map_of sc mood = Some w"
  shows "map_of (fst (keyword_loop t MOOD_KEYWORDS (sc, rs))) mood =
           Some (if keyword_hit t mood then fadd w f0_6 else w)"
  using assms keyword_loop_map_of[OF distinct_MOOD_KEYWORDS, of t sc rs mood]
  by (auto simp: keyword_hit_def split: option.splits)

lemma penalty_of_values: "penalty_of L now r = 0 \<or> penalty_of L now r = - f0_2"
  by (auto simp: penalty_of_naive_timestamp split: option.splits)

lemma recent_mood_bias_values:
  "recent_mood_bias L now m f = Inr a \<Longrightarrow> a = 0 \<or> a = - f0_2"
  using penalty_of_values
  by (auto simp: recent_mood_bias_def Let_def split: sum.splits if_splits)

lemma recency_loop_other:
  "recency_loop L clock f ms (sc, rs) = Inr (sc', rs') \<Longrightarrow> m \<notin> set ms \<Longrightarrow>
   map_of sc' m = map_of sc m"
proof (induction ms arbitrary: sc rs)
  case Nil
  then show ?case by simp
next
  case (Cons m0 ms)
  then show ?case
    by (auto simp: map_of_add_score split: sum.splits)
qed

lemma recency_loop_scores:
  "recency_loop L clock f ms (sc, rs) = Inr (sc', rs') \<Longrightarrow> distinct ms \<Longrightarrow> m \<in> set ms \<Longrightarrow>
   \<exists>adj. recent_mood_bias L (clock m) m f = Inr adj \<and>
         map_of sc' m = map_option (\<lambda>v. fadd v adj) (map_of sc m)"
proof (induction ms arbitrary: sc rs)
  case Nil
  then show ?case by simp
next
  case (Cons m0 ms)
  from Cons.prems(1) obtain a0 where a0: "recent_mood_bias L (clock m0) m0 f = Inr a0"
    by (auto split: sum.splits)
  define rs1 where "rs1 = (if a0 < 0 then rs @ [RecentlySeen m0] else rs)"
  have rest: "recency_loop L clock f ms (add_score m0 a0 sc, rs1) = Inr (sc', rs')"
    using Cons.prems(1) a0 by (simp add: rs1_def)
  show ?case
  proof (cases "m = m0")
    case True
    then have "m \<notin> set ms" using Cons.prems(2) by simp
    from recency_loop_other[OF rest this] show ?thesis
      using a0 True by (simp add: map_of_add_score)
  next
    case False
    then have "m \<in> set ms" using Cons.prems(3) by simp
    from Cons.IH[OF rest _ this] Cons.prems(2) show ?thesis
      using False by (simp add: map_of_add_score)
  qed
qed

lemma max_from_first:
  "\<forall>p\<in>set ps. snd p \<le> snd b \<Longrightarrow> max_from ps b = b"
  by (induction ps) auto

lemma distinct_ALL_MOODS: "distinct ALL_MOODS"
  by (simp add: ALL_MOODS_def)

lemma detect_mood_score:
  assumes "detect_mood L clock text f = Inr (mood, c, reasons, scores)"
    and "m \<in> set ALL_MOODS"
  shows "\<exists>adj. recent_mood_bias L (clock m) m f = Inr adj \<and> (adj = 0 \<or> adj = - f0_2) \<and>
           map_of scores m =
             map_option (\<lambda>v. fadd v adj)
               (map_of (fst (sentiment_rule c
                  (keyword_loop (lower text) MOOD_KEYWORDS (start_scores, [])))) m)"
proof -
  obtain sc rs where s: "sentiment_rule c
      (keyword_loop (lower text) MOOD_KEYWORDS (start_scores, [])) = (sc, rs)"
    by (cases "sentiment_rule c (keyword_loop (lower text) MOOD_KEYWORDS (start_scores, []))")
  have "recency_loop L clock f ALL_MOODS (sc, rs) = Inr (scores, reasons)"
    using detect_mood_steps[OF assms(1)] s by simp
  from recency_loop_scores[OF this distinct_ALL_MOODS assms(2)] obtain adj where
    "recent_mood_bias L (clock m) m f = Inr adj"
    "map_of scores m = map_option (\<lambda>v. fadd v adj) (map_of sc m)"
    by blast
  then show ?thesis
    using recent_mood_bias_values[of L "clock m" m f adj] s by auto
qed

lemma f0_6_val: "f0_6 = 5404319552844595 / 2 ^ 53" by code_simp
lemma f0_2_val: "f0_2 = 3602879701896397 / 2 ^ 54" by code_simp
lemma fadd_f0_6_0: "fadd f0_6 0 = f0_6" by code_simp
lemma fadd_f0_6_penalty: "fadd f0_6 (- f0_2) = 7205759403792793 / 2 ^ 54" by code_simp
lemma fadd_0_0: "fadd 0 0 = 0" by code_simp
lemma fadd_0_penalty: "fadd 0 (- f0_2) = - f0_2" by code_simp
lemma fadd_0_f0_2: "fadd 0 f0_2 = f0_2" by code_simp
lemma fadd_f0_2_0: "fadd f0_2 0 = f0_2" by code_simp
lemma fadd_f0_2_penalty: "fadd f0_2 (- f0_2) = 0" by code_simp

lemma sentiment_rule_neutral:
  assumes "to_double c = c" and "\<bar>c\<bar> < 1 / 20"
  shows "fst (sentiment_rule c (sc, rs)) = add_score ''neutral'' f0_2 sc"
  using double_ge_0_05[OF assms(1)] double_le_minus_0_05[OF assms(1)] assms(2)
  by (auto simp: f0_5_val)

lemma keyword_hit_neutral: "\<not> keyword_hit t ''neutral''"
  by (simp add: keyword_hit_def MOOD_KEYWORDS_def)

lemma neutral_text_scores:
  assumes "to_double c = c" and "\<bar>c\<bar> < 1 / 20"
    and "detect_mood L clock text f = Inr (mood, c, reasons, scores)"
    and "m \<in> set ALL_MOODS"
  shows "\<exists>adj. recent_mood_bias L (clock m) m f = Inr adj \<and> (adj = 0 \<or> adj = - f0_2) \<and>
           map_of scores m =
             Some (fadd (if m = ''neutral'' then f0_2
                         else if keyword_hit (lower text) m then f0_6 else 0) adj)"
proof -
  obtain sc rs where k: "keyword_loop (lower text) MOOD_KEYWORDS (start_scores, []) = (sc, rs)"
    by (cases "keyword_loop (lower text) MOOD_KEYWORDS (start_scores, [])")
  have kw: "map_of sc m = Some (if keyword_hit (lower text) m then f0_6 else 0)"
    using keyword_loop_hit[OF start_scores_map_of[OF assms(4)], of "lower text" "[]"] k
    by (simp add: fadd_0_f0_6)
  have "map_of (fst (sentiment_rule c (sc, rs))) m =
          Some (if m = ''neutral'' then f0_2
                else if keyword_hit (lower text) m then f0_6 else 0)"
  proof (cases "m = ''neutral''")
    case True
    then have "map_of sc ''neutral'' = Some 0"
      using kw by (simp add: keyword_hit_neutral)
    then show ?thesis
      unfolding sentiment_rule_neutral[OF assms(1,2)]
      using True by (simp add: map_of_add_score fadd_0_f0_2)
  next
    case False
    then show ?thesis
      unfolding sentiment_rule_neutral[OF assms(1,2)]
      using kw by (simp add: map_of_add_score)
  qed
  then show ?thesis
    using detect_mood_score[OF assms(3,4)] k by auto
qed

text \<open>
  Claim C5, as amended. Let the lower-cased text contain a stressed keyword and let the
  compound score, a double, lie strictly between -0.05 and 0.05, so that only the
  neutral rule fires. Then the score of stressed is 0.6 plus the recency adjustment of
  stressed, which is 0.0 or -0.2: it is 0.6 when stressed is not penalised, and
  0.6 - 0.2, which is below 0.6, when it is. In both cases the mood selected is stressed
  when no other mood has a keyword hit.
\<close>

theorem stressed_keyword_mood:
  assumes "keyword_hit (lower text) ''stressed''"
    and "to_double c = c" and "\<bar>c\<bar> < 1 / 20"
    and "detect_mood L clock text f = Inr (mood, c, reasons, scores)"
  shows "(recent_mood_bias L (clock ''stressed'') ''stressed'' f = Inr 0 \<or>
          recent_mood_bias L (clock ''stressed'') ''stressed'' f = Inr (- f0_2)) \<and>
         (recent_mood_bias L (clock ''stressed'') ''stressed'' f = Inr 0 \<longrightarrow>
            map_of scores ''stressed'' = Some f0_6) \<and>
         (recent_mood_bias L (clock ''stressed'') ''stressed'' f = Inr (- f0_2) \<longrightarrow>
            map_of scores ''stressed'' = Some (fadd f0_6 (- f0_2)) \<and>
            fadd f0_6 (- f0_2) < f0_6) \<and>
         (\<not> keyword_hit (lower text) ''tired'' \<and> \<not> keyword_hit (lower text) ''sad'' \<and>
          \<not> keyword_hit (lower text) ''happy'' \<longrightarrow> mood = ''stressed'')"
proof -
  have in_moods: "''stressed'' \<in> set ALL_MOODS" by (simp add: ALL_MOODS_def)
  from neutral_text_scores[OF assms(2,3,4) in_moods] assms(1) obtain adj where
    adj: "recent_mood_bias L (clock ''stressed'') ''stressed'' f = Inr adj"
         "adj = 0 \<or> adj = - f0_2"
         "map_of scores ''stressed'' = Some (fadd f0_6 adj)"
    by auto
  have lt: "fadd f0_6 (- f0_2) < f0_6"
    by code_simp
  have part1: "(recent_mood_bias L (clock ''stressed'') ''stressed'' f = Inr 0 \<or>
          recent_mood_bias L (clock ''stressed'') ''stressed'' f = Inr (- f0_2)) \<and>
         (recent_mood_bias L (clock ''stressed'') ''stressed'' f = Inr 0 \<longrightarrow>
            map_of scores ''stressed'' = Some f0_6) \<and>
         (recent_mood_bias L (clock ''stressed'') ''stressed'' f = Inr (- f0_2) \<longrightarrow>
            map_of scores ''stressed'' = Some (fadd f0_6 (- f0_2)) \<and>
            fadd f0_6 (- f0_2) < f0_6)"
    using adj lt by (auto simp: fadd_f0_6_0)
  have part2: "mood = ''stressed''"
    if no: "\<not> keyword_hit (lower text) ''tired'' \<and> \<not> keyword_hit (lower text) ''sad'' \<and>
          \<not> keyword_hit (lower text) ''happy''"
  proof -
    have keys: "map fst scores = ALL_MOODS" using assms(4) by (rule detect_mood_keys)
    then obtain p rest where sc: "scores = p # rest" "fst p = ''stressed''"
        "map fst rest = [''tired'', ''sad'', ''happy'', ''neutral'']"
      by (cases scores) (auto simp: ALL_MOODS_def)
    have dist: "distinct (map fst scores)" using keys by (simp add: distinct_ALL_MOODS)
    have s1: "snd p = fadd f0_6 adj"
      using adj(3) sc(1,2) by (cases p) auto
    have low: "fadd f0_6 (- f0_2) \<le> snd p"
      using s1 adj(2) lt by (auto simp: fadd_f0_6_0)
    have b0: "0 \<le> fadd f0_6 (- f0_2)" by code_simp
    have b1: "- f0_2 \<le> fadd f0_6 (- f0_2)" by code_simp
    have b2: "f0_2 \<le> fadd f0_6 (- f0_2)" by code_simp
    have le: "snd q \<le> snd p" if q: "q \<in> set rest" for q
    proof -
      have "fst q \<in> set (map fst rest)" using q by simp
      then have fq: "fst q = ''tired'' \<or> fst q = ''sad'' \<or> fst q = ''happy'' \<or>
          fst q = ''neutral''"
        unfolding sc(3) by simp
      then have qm: "fst q \<in> set ALL_MOODS"
        by (auto simp: ALL_MOODS_def)
      have "(fst q, snd q) \<in> set scores" using q sc(1) by simp
      with dist have v: "map_of scores (fst q) = Some (snd q)"
        by (rule map_of_is_SomeI)
      from neutral_text_scores[OF assms(2,3,4) qm] obtain a where
        a: "a = 0 \<or> a = - f0_2" and
        w: "map_of scores (fst q) =
           Some (fadd (if fst q = ''neutral'' then f0_2
                       else if keyword_hit (lower text) (fst q) then f0_6 else 0) a)"
        by blast
      have nohit: "fst q \<noteq> ''neutral'' \<Longrightarrow> \<not> keyword_hit (lower text) (fst q)"
        using fq no by auto
      have "snd q = 0 \<or> snd q = - f0_2 \<or> snd q = f0_2"
      proof (cases "fst q = ''neutral''")
        case True
        then have "snd q = fadd f0_2 a" using v w by simp
        then show ?thesis using a by (auto simp: fadd_f0_2_0 fadd_f0_2_penalty)
      next
        case False
        then have "snd q = fadd 0 a" using v w nohit by simp
        then show ?thesis using a by (auto simp: fadd_0_0 fadd_0_penalty)
      qed
      then have "snd q \<le> fadd f0_6 (- f0_2)"
        using b0 b1 b2 by auto
      then show ?thesis using low by (rule order_trans)
    qed
    have "max_from rest p = p"
      using le by (intro max_from_first) blast
    then show ?thesis
      using detect_mood_InrD(3)[OF assms(4)] sc(1,2) by (simp add: py_max_def)
  qed
  from part1 part2 show ?thesis by blast
qed

theorem stressed_keyword_mood_witness:
  "keyword_hit (lower ''pressurecooker'') ''stressed'' \<and>
   to_double 0 = 0 \<and> \<bar>0::rat\<bar> < 1 / 20 \<and>
   detect_mood example_lib (\<lambda>m. noon + minutes 90) ''pressurecooker'' (Content example_text) =
     Inr (''stressed'', 0,
          [KeywordHits ''stressed'' [''pressure''], Sentiment ''neutral'' 0 ''neutral'',
           RecentlySeen ''stressed''],
          [(''stressed'', fadd f0_6 (- f0_2)), (''tired'', 0), (''sad'', 0), (''happy'', 0),
           (''neutral'', f0_2)]) \<and>
   recent_mood_bias example_lib (noon + minutes 90) ''stressed'' (Content example_text) =
     Inr (- f0_2) \<and>
   map_of [(''stressed'', fadd f0_6 (- f0_2)), (''tired'', 0), (''sad'', 0), (''happy'', 0),
           (''neutral'', f0_2)] ''stressed'' = Some (fadd f0_6 (- f0_2)) \<and>
   fadd f0_6 (- f0_2) < f0_6 \<and>
   \<not> keyword_hit (lower ''pressurecooker'') ''tired'' \<and>
   \<not> keyword_hit (lower ''pressurecooker'') ''sad'' \<and>
   \<not> keyword_hit (lower ''pressurecooker'') ''happy'' \<and>
   detect_mood example_lib (\<lambda>m. noon) ''pressurecooker'' Missing =
     Inr (''stressed'', 0,
          [KeywordHits ''stressed'' [''pressure''], Sentiment ''neutral'' 0 ''neutral''],
          [(''stressed'', f0_6), (''tired'', 0), (''sad'', 0), (''happy'', 0), (''neutral'', f0_2)]) \<and>
   recent_mood_bias example_lib noon ''stressed'' Missing = Inr 0 \<and>
   map_of [(''stressed'', f0_6), (''tired'', 0), (''sad'', 0), (''happy'', 0), (''neutral'', f0_2)]
     ''stressed'' = Some f0_6"
proof -
  have k: "keyword_hit (lower ''pressurecooker'') ''stressed''" by code_simp
  have n1: "\<not> keyword_hit (lower ''pressurecooker'') ''tired''" by code_simp
  have n2: "\<not> keyword_hit (lower ''pressurecooker'') ''sad''" by code_simp
  have n3: "\<not> keyword_hit (lower ''pressurecooker'') ''happy''" by code_simp
  have d: "to_double 0 = 0" by code_simp
  have z: "\<bar>0::rat\<bar> < 1 / 20" by simp
  have r1: "detect_mood example_lib (\<lambda>m. noon + minutes 90) ''pressurecooker''
      (Content example_text) =
     Inr (''stressed'', 0,
          [KeywordHits ''stressed'' [''pressure''], Sentiment ''neutral'' 0 ''neutral'',
           RecentlySeen ''stressed''],
          [(''stressed'', fadd f0_6 (- f0_2)), (''tired'', 0), (''sad'', 0), (''happy'', 0),
           (''neutral'', f0_2)])"
    by code_simp
  have r2: "detect_mood example_lib (\<lambda>m. noon) ''pressurecooker'' Missing =
     Inr (''stressed'', 0,
          [KeywordHits ''stressed'' [''pressure''], Sentiment ''neutral'' 0 ''neutral''],
          [(''stressed'', f0_6), (''tired'', 0), (''sad'', 0), (''happy'', 0), (''neutral'', f0_2)])"
    by code_simp
  have b1: "recent_mood_bias example_lib (noon + minutes 90) ''stressed'' (Content example_text) =
     Inr (- f0_2)"
    by code_simp
  have b2: "recent_mood_bias example_lib noon ''stressed'' Missing = Inr 0"
    by code_simp
  from stressed_keyword_mood[OF k d z r1] stressed_keyword_mood[OF k d z r2]
  show ?thesis using k n1 n2 n3 d z r1 r2 b1 b2 by simp
qed

text \<open>
  Claim C5 as stated fails: the memory holds a stressed record written 30 minutes ago,
  the text \<^verbatim>\<open>pressurecooker\<close> contains the stressed keyword \<^verbatim>\<open>pressure\<close> and its one
  token is unknown to the analyser, so the compound score is 0.0 and only the neutral
  rule fires. The score of stressed is 0.6 - 0.2 = 0.39999999999999997, not at least 0.6.
\<close>

theorem stressed_score_counterexample:
  "keyword_hit (lower ''pressurecooker'') ''stressed'' \<and>
   polarity_compound example_lib (lower ''pressurecooker'') = 0 \<and>
   fst (sentiment_rule 0 (start_scores, [])) = add_score ''neutral'' f0_2 start_scores \<and>
   detect_mood example_lib (\<lambda>m. noon + minutes 90) ''pressurecooker'' (Content example_text) =
     Inr (''stressed'', 0,
          [KeywordHits ''stressed'' [''pressure''], Sentiment ''neutral'' 0 ''neutral'',
           RecentlySeen ''stressed''],
          [(''stressed'', 7205759403792793 / 2 ^ 54), (''tired'', 0), (''sad'', 0), (''happy'', 0),
           (''neutral'', f0_2)]) \<and>
   \<not> f0_6 \<le> 7205759403792793 / 2 ^ 54"
  by code_simp

end
